theory Spec2Isabelle
  imports Complex_Main
begin

section \<open>Tensors and the library layers the modules are built from\<close>

text \<open>
  The source file defines four classes on top of the tensor library: \<open>Encoder\<close>,
  \<open>Attention\<close>, \<open>DecoderWithAttention\<close> and \<open>Seq2Seq\<close>, and the helper \<open>softmax\<close>.

  A tensor is a nested list, outermost axis first: \<open>[src len, batch, dim]\<close> is a list
  of \<open>src len\<close> matrices with \<open>batch\<close> rows of \<open>dim\<close> entries. Entries are real
  numbers: the arithmetic of the source is read as exact arithmetic, rounding and overflow
  of the machine floats are not part of the model. Token indices are integers.
  A nested list cannot record the inner sizes of a tensor whose outer axis is empty;
  the statements below say where an axis has to be non-empty.

  Shape mismatches, which the library reports by raising, are results \<open>Inl e\<close>.
\<close>

type_synonym vec = "real list"
type_synonym matrix = "real list list"
type_synonym tensor3 = "real list list list"

datatype error = IndexError | RuntimeError | AssertionError

definition shape2 :: "'a list list \<Rightarrow> nat \<Rightarrow> nat \<Rightarrow> bool" where
  "shape2 m r c = (length m = r \<and> (\<forall>row \<in> set m. length row = c))"

definition shape3 :: "'a list list list \<Rightarrow> nat \<Rightarrow> nat \<Rightarrow> nat \<Rightarrow> bool" where
  "shape3 x a b c = (length x = a \<and> (\<forall>m \<in> set x. shape2 m b c))"

definition zeros2 :: "nat \<Rightarrow> nat \<Rightarrow> matrix" where
  "zeros2 r c = replicate r (replicate c 0)"

definition zeros3 :: "nat \<Rightarrow> nat \<Rightarrow> nat \<Rightarrow> tensor3" where
  "zeros3 a b c = replicate a (zeros2 b c)"

text \<open>\<open>torch.sum(x, dim=0)\<close> on a three-axis tensor with a non-empty first axis.\<close>

definition sum_dim0 :: "tensor3 \<Rightarrow> matrix" where
  "sum_dim0 x = (case x of [] \<Rightarrow> [] | m # ms \<Rightarrow> foldl (map2 (map2 (+))) m ms)"

text \<open>\<open>torch.cat((x, y), dim=2)\<close>: the first two axes have to agree.\<close>

definition cat_dim2 :: "tensor3 \<Rightarrow> tensor3 \<Rightarrow> error + tensor3" where
  "cat_dim2 x y =
     (if length x = length y \<and> list_all2 (\<lambda>p q. length p = length q) x y
      then Inr (map2 (map2 (@)) x y)
      else Inl RuntimeError)"

text \<open>
  The product \<open>a * x\<close> of two three-axis tensors whose first two axes agree; the last
  axis is broadcast when one side has size 1.
\<close>

definition mul_last :: "vec \<Rightarrow> vec \<Rightarrow> vec" where
  "mul_last u w =
     (if length u = length w then map2 (*) u w
      else if length u = 1 then map ((*) (hd u)) w
      else map (\<lambda>c. c * hd w) u)"

definition mul_bcast :: "tensor3 \<Rightarrow> tensor3 \<Rightarrow> error + tensor3" where
  "mul_bcast a x =
     (if length a = length x \<and>
         list_all2 (\<lambda>p q. length p = length q \<and>
            list_all2 (\<lambda>u w. length u = length w \<or> length u = 1 \<or> length w = 1) p q) a x
      then Inr (map2 (map2 mul_last) a x)
      else Inl RuntimeError)"

text \<open>\<open>nn.Linear(in_features, out_features)\<close>: \<open>y = W x + b\<close> along the last axis.\<close>

record Linear =
  in_features :: nat
  out_features :: nat
  weight :: matrix
  bias :: vec

definition wf_Linear :: "Linear \<Rightarrow> bool" where
  "wf_Linear l = (shape2 (weight l) (out_features l) (in_features l) \<and>
                  length (bias l) = out_features l)"

definition dot :: "vec \<Rightarrow> vec \<Rightarrow> real" where
  "dot u w = sum_list (map2 (*) u w)"

definition Linear_row :: "Linear \<Rightarrow> vec \<Rightarrow> vec" where
  "Linear_row l x = map2 (\<lambda>w b. dot w x + b) (weight l) (bias l)"

definition Linear_forward :: "Linear \<Rightarrow> tensor3 \<Rightarrow> error + tensor3" where
  "Linear_forward l x =
     (if \<forall>m \<in> set x. \<forall>r \<in> set m. length r = in_features l
      then Inr (map (map (Linear_row l)) x)
      else Inl RuntimeError)"

text \<open>
  \<open>nn.Embedding(num, dim)\<close> applied to a \<open>[len, batch]\<close> tensor of indices: every
  index selects a row of the table; an index outside the table raises.
\<close>

definition Embedding_forward :: "matrix \<Rightarrow> int list list \<Rightarrow> error + tensor3" where
  "Embedding_forward table idx =
     (if \<forall>row \<in> set idx. \<forall>i \<in> set row. 0 \<le> i \<and> i < int (length table)
      then Inr (map (map (\<lambda>i. table ! nat i)) idx)
      else Inl IndexError)"

text \<open>
  \<open>nn.Dropout(p)\<close>. In training mode an entry is kept and scaled by \<open>1 / (1 - p)\<close> or
  set to zero; which entries are kept is the random mask, an input of the model:
  \<open>keep i j k\<close> tells whether the entry at position \<open>(i, j, k)\<close> survives. In evaluation
  mode the layer is the identity.
\<close>

record Dropout =
  drop_p :: real
  drop_training :: bool

type_synonym mask = "nat \<Rightarrow> nat \<Rightarrow> nat \<Rightarrow> bool"

definition Dropout_forward :: "Dropout \<Rightarrow> mask \<Rightarrow> tensor3 \<Rightarrow> tensor3" where
  "Dropout_forward d keep x =
     (if drop_training d
      then map (\<lambda>(i, m). map (\<lambda>(j, r). map (\<lambda>(k, a).
             if keep i j k then a / (1 - drop_p d) else 0) (enumerate 0 r)) (enumerate 0 m))
             (enumerate 0 x)
      else x)"

text \<open>
  \<open>argmax(-1)\<close> of a \<open>[batch, vocab]\<close> tensor: per row the index of the first
  maximal entry; a row without entries raises.
\<close>

fun argmax :: "vec \<Rightarrow> nat" where
  "argmax [] = 0"
| "argmax [x] = 0"
| "argmax (x # y # ys) = (let i = argmax (y # ys) in if (y # ys) ! i \<le> x then 0 else Suc i)"

definition argmax_last :: "matrix \<Rightarrow> error + int list" where
  "argmax_last m =
     (if \<exists>r \<in> set m. r = [] then Inl IndexError
      else Inr (map (\<lambda>r. int (argmax r)) m))"

section \<open>softmax\<close>

text \<open>
  \<^verbatim>\<open>
  def softmax(x, temperature=10):
      e_x = torch.exp(x / temperature)
      return e_x / torch.sum(e_x, dim=0)
  \<close>
  The sum runs over the first axis and is broadcast over it in the division.
  The source computes in 32-bit floats and does not subtract the maximum first: there
  \<open>exp\<close> overflows for scores above about 887 and underflows for scores far below 0,
  and the quotient is then not a number. What is proved below about the values of
  \<open>softmax\<close> is proved of the formula in exact arithmetic, not of those runs.
\<close>

definition softmax :: "tensor3 \<Rightarrow> real \<Rightarrow> tensor3" where
  "softmax x temperature =
     (let e_x = map (map (map (\<lambda>a. exp (a / temperature)))) x
      in map (\<lambda>p. map2 (map2 (/)) p (sum_dim0 e_x)) e_x)"

definition default_temperature :: real where
  "default_temperature = 10"

section \<open>Attention\<close>

text \<open>
  The constructor takes \<open>enc_hid_dim\<close>, \<open>dec_hid_dim\<close> and \<open>bidirectional\<close> and builds
  \<open>attn = nn.Linear((1 + bidirectional) * enc_hid_dim + dec_hid_dim, enc_hid_dim)\<close> and
  \<open>v = nn.Linear(enc_hid_dim, 1)\<close>; \<open>wf_Attention\<close> states these sizes.
\<close>

record Attention =
  att_enc_hid_dim :: nat
  att_dec_hid_dim :: nat
  att_attn :: Linear
  att_v :: Linear

definition directions :: "bool \<Rightarrow> nat" where
  "directions bidirectional = (if bidirectional then 2 else 1)"

definition wf_Attention :: "bool \<Rightarrow> Attention \<Rightarrow> bool" where
  "wf_Attention bidirectional a =
     (wf_Linear (att_attn a) \<and> wf_Linear (att_v a) \<and>
      in_features (att_attn a) = directions bidirectional * att_enc_hid_dim a + att_dec_hid_dim a \<and>
      out_features (att_attn a) = att_enc_hid_dim a \<and>
      in_features (att_v a) = att_enc_hid_dim a \<and>
      out_features (att_v a) = 1)"

text \<open>
  The scores handed to \<open>softmax\<close>: \<open>self.v(F.tanh(self.attn(conc)))\<close>, where \<open>conc\<close>
  joins every encoder output with the repeated decoder state.
\<close>

definition Attention_scores :: "Attention \<Rightarrow> tensor3 \<Rightarrow> tensor3 \<Rightarrow> error + tensor3" where
  "Attention_scores a hidden encoder_outputs =
     (let hidden' = concat (replicate (length encoder_outputs) hidden)
      in case cat_dim2 encoder_outputs hidden' of
           Inl e \<Rightarrow> Inl e
         | Inr conc \<Rightarrow>
             (case Linear_forward (att_attn a) conc of
                Inl e \<Rightarrow> Inl e
              | Inr pre \<Rightarrow> Linear_forward (att_v a) (map (map (map tanh)) pre)))"

definition Attention_forward :: "Attention \<Rightarrow> tensor3 \<Rightarrow> tensor3 \<Rightarrow> error + tensor3" where
  "Attention_forward a hidden encoder_outputs =
     (case Attention_scores a hidden encoder_outputs of
        Inl e \<Rightarrow> Inl e
      | Inr s \<Rightarrow> Inr (softmax s default_temperature))"

section \<open>Encoder\<close>

text \<open>
  \<open>nn.LSTM\<close> is a layer of the tensor library: the field \<open>enc_rnn\<close> stands for the
  trained layer as a function from the embedded source to \<open>(outputs, hidden, cell)\<close>,
  with \<open>outputs = [src len, batch, hid dim * n directions]\<close> and
  \<open>hidden = cell = [n layers * n directions, batch, hid dim]\<close>; the final states of the
  forward and the backward direction of the last layer are the last two entries of
  \<open>hidden\<close>. The attribute \<open>dropout\<close> holds the \<open>nn.Dropout\<close> layer.
\<close>

record Encoder =
  enc_input_dim :: nat
  enc_emb_dim :: nat
  enc_hid_dim :: nat
  enc_n_layers :: nat
  enc_bidirectional :: bool
  enc_embedding :: matrix
  enc_rnn :: "tensor3 \<Rightarrow> error + (tensor3 \<times> tensor3 \<times> tensor3)"
  enc_dropout :: Dropout

definition Encoder_forward ::
  "Encoder \<Rightarrow> mask \<Rightarrow> int list list \<Rightarrow> error + (tensor3 \<times> tensor3 \<times> tensor3)" where
  "Encoder_forward e keep src =
     (case Embedding_forward (enc_embedding e) src of
        Inl err \<Rightarrow> Inl err
      | Inr emb \<Rightarrow> enc_rnn e (Dropout_forward (enc_dropout e) keep emb))"

section \<open>DecoderWithAttention\<close>

text \<open>
  \<open>dec_rnn\<close> stands for the trained \<open>nn.GRU\<close>, from the step input
  \<open>[1, batch, emb dim + enc hid dim * n directions]\<close> and the state
  \<open>[1, batch, dec hid dim]\<close> to \<open>(output, hidden)\<close>. The output of a GRU has the
  sequence length of its input, here 1, and \<open>squeeze(0)\<close> removes that axis; a
  prediction with another first axis cannot be stored by the caller and is reported
  as an error here. The input of the GRU is \<open>cat((embedded, w_t))\<close>, and
  \<open>cat((embedded, w_t, output))\<close> is that input joined with \<open>output\<close>.
\<close>

record DecoderWithAttention =
  dec_emb_dim :: nat
  dec_enc_hid_dim :: nat
  dec_dec_hid_dim :: nat
  dec_output_dim :: nat
  dec_attention :: Attention
  dec_embedding :: matrix
  dec_rnn :: "tensor3 \<Rightarrow> tensor3 \<Rightarrow> error + (tensor3 \<times> tensor3)"
  dec_out :: Linear
  dec_dropout :: Dropout

definition DecoderWithAttention_forward ::
  "DecoderWithAttention \<Rightarrow> mask \<Rightarrow> int list \<Rightarrow> tensor3 \<Rightarrow> tensor3 \<Rightarrow>
     error + (matrix \<times> tensor3)" where
  "DecoderWithAttention_forward d keep input hidden encoder_outputs =
     (case Embedding_forward (dec_embedding d) [input] of
        Inl e \<Rightarrow> Inl e
      | Inr emb \<Rightarrow>
     (let embedded = Dropout_forward (dec_dropout d) keep emb in
      case Attention_forward (dec_attention d) hidden encoder_outputs of
        Inl e \<Rightarrow> Inl e
      | Inr a_t \<Rightarrow>
     (case mul_bcast a_t encoder_outputs of
        Inl e \<Rightarrow> Inl e
      | Inr weighted \<Rightarrow>
     (let w_t = [sum_dim0 weighted] in
      case cat_dim2 embedded w_t of
        Inl e \<Rightarrow> Inl e
      | Inr rnn_input \<Rightarrow>
     (case dec_rnn d rnn_input hidden of
        Inl e \<Rightarrow> Inl e
      | Inr (output, hidden') \<Rightarrow>
     (case cat_dim2 rnn_input output of
        Inl e \<Rightarrow> Inl e
      | Inr features \<Rightarrow>
     (case Linear_forward (dec_out d) features of
        Inl e \<Rightarrow> Inl e
      | Inr prediction \<Rightarrow>
     (case prediction of
        [scores] \<Rightarrow> Inr (scores, hidden')
      | _ \<Rightarrow> Inl RuntimeError))))))))"

section \<open>Seq2Seq\<close>

record Seq2Seq =
  s2s_encoder :: Encoder
  s2s_decoder :: DecoderWithAttention
  s2s_device :: string

text \<open>
  The constructor stores its three arguments. The comparison of the hidden sizes is
  commented out in the source, so no path of the constructor raises.
\<close>

definition Seq2Seq_init :: "Encoder \<Rightarrow> DecoderWithAttention \<Rightarrow> string \<Rightarrow> error + Seq2Seq" where
  "Seq2Seq_init encoder decoder device =
     Inr \<lparr>s2s_encoder = encoder, s2s_decoder = decoder, s2s_device = device\<rparr>"

text \<open>
  The state of the loop of \<open>forward\<close>: the local variables \<open>input\<close>, \<open>hidden\<close> and
  \<open>outputs\<close>, and the number of draws taken so far from the generator behind
  \<open>random.random()\<close>. The generator is the sequence \<open>draws\<close> of the numbers it will
  return; the dropout masks are the sequence \<open>masks\<close>, entry 0 for the call of the
  encoder and entry \<open>t\<close> for the call of the decoder at step \<open>t\<close>.
\<close>

record loop_state =
  st_input :: "int list"
  st_hidden :: tensor3
  st_outputs :: tensor3
  st_rng :: nat

definition trg_batch_size :: "int list list \<Rightarrow> nat" where
  "trg_batch_size trg = (case trg of [] \<Rightarrow> 0 | row # _ \<Rightarrow> length row)"

text \<open>
  \<open>outputs[t] = output\<close> copies a \<open>[batch, vocab]\<close> tensor into position \<open>t\<close>; an axis
  of size 1 of \<open>output\<close> is broadcast, any other difference of the shapes raises.
\<close>

definition expand :: "nat \<Rightarrow> 'a list \<Rightarrow> 'a list" where
  "expand n xs = (if length xs = n then xs else replicate n (hd xs))"

definition store_scores :: "nat \<Rightarrow> nat \<Rightarrow> tensor3 \<Rightarrow> nat \<Rightarrow> matrix \<Rightarrow> error + tensor3" where
  "store_scores batch_size vocab outputs t output =
     (if t < length outputs \<and> (length output = batch_size \<or> length output = 1) \<and>
         (\<forall>r \<in> set output. length r = vocab \<or> length r = 1)
      then Inr (outputs[t := expand batch_size (map (expand vocab) output)])
      else Inl RuntimeError)"

text \<open>One pass through the body of the loop, at index \<open>t\<close>.\<close>

definition decode_step ::
  "Seq2Seq \<Rightarrow> (nat \<Rightarrow> mask) \<Rightarrow> (nat \<Rightarrow> real) \<Rightarrow> tensor3 \<Rightarrow> int list list \<Rightarrow> real \<Rightarrow>
     nat \<Rightarrow> loop_state \<Rightarrow> error + loop_state" where
  "decode_step m masks draws enc_states trg teacher_forcing_ratio t st =
     (case DecoderWithAttention_forward (s2s_decoder m) (masks t)
             (st_input st) (st_hidden st) enc_states of
        Inl e \<Rightarrow> Inl e
      | Inr (output, hidden') \<Rightarrow>
     (case store_scores (trg_batch_size trg) (dec_output_dim (s2s_decoder m))
             (st_outputs st) t output of
        Inl e \<Rightarrow> Inl e
      | Inr outputs' \<Rightarrow>
     (let teacher_force = (draws (st_rng st) < teacher_forcing_ratio) in
      case argmax_last output of
        Inl e \<Rightarrow> Inl e
      | Inr top1 \<Rightarrow>
          Inr \<lparr>st_input = (if teacher_force then trg ! t else top1),
               st_hidden = hidden',
               st_outputs = outputs',
               st_rng = Suc (st_rng st)\<rparr>)))"

fun decode_loop ::
  "Seq2Seq \<Rightarrow> (nat \<Rightarrow> mask) \<Rightarrow> (nat \<Rightarrow> real) \<Rightarrow> tensor3 \<Rightarrow> int list list \<Rightarrow> real \<Rightarrow>
     nat list \<Rightarrow> loop_state \<Rightarrow> error + loop_state" where
  "decode_loop m masks draws enc_states trg tfr [] st = Inr st"
| "decode_loop m masks draws enc_states trg tfr (t # ts) st =
     (case decode_step m masks draws enc_states trg tfr t st of
        Inl e \<Rightarrow> Inl e
      | Inr st' \<Rightarrow> decode_loop m masks draws enc_states trg tfr ts st')"

text \<open>
  The statements before the loop: the zero tensor \<open>outputs\<close>, the call of the encoder,
  \<open>hidden[-1].unsqueeze(0)\<close> and \<open>input = trg[0,:]\<close>. Both indexings raise on an empty
  first axis.
\<close>

definition Seq2Seq_start ::
  "Seq2Seq \<Rightarrow> (nat \<Rightarrow> mask) \<Rightarrow> nat \<Rightarrow> int list list \<Rightarrow> int list list \<Rightarrow>
     error + (tensor3 \<times> loop_state)" where
  "Seq2Seq_start m masks k src trg =
     (let batch_size = trg_batch_size trg;
          trg_len = length trg;
          trg_vocab_size = dec_output_dim (s2s_decoder m);
          outputs = zeros3 trg_len batch_size trg_vocab_size
      in case Encoder_forward (s2s_encoder m) (masks 0) src of
           Inl e \<Rightarrow> Inl e
         | Inr (enc_states, hidden, cell) \<Rightarrow>
             if hidden = [] then Inl IndexError
             else if trg = [] then Inl IndexError
             else Inr (enc_states,
                       \<lparr>st_input = hd trg, st_hidden = [last hidden],
                        st_outputs = outputs, st_rng = k\<rparr>))"

text \<open>
  \<open>Seq2Seq_run \<dots> n\<close> is the state on entry to the pass with index \<open>n\<close>, after the
  passes \<open>1, \<dots>, n - 1\<close>; \<open>forward\<close> returns \<open>outputs\<close> of the state reached at
  \<open>n = trg_len\<close>, here together with the position of the generator.
\<close>

definition Seq2Seq_run ::
  "Seq2Seq \<Rightarrow> (nat \<Rightarrow> mask) \<Rightarrow> (nat \<Rightarrow> real) \<Rightarrow> nat \<Rightarrow> int list list \<Rightarrow> int list list \<Rightarrow>
     real \<Rightarrow> nat \<Rightarrow> error + (tensor3 \<times> loop_state)" where
  "Seq2Seq_run m masks draws k src trg tfr n =
     (case Seq2Seq_start m masks k src trg of
        Inl e \<Rightarrow> Inl e
      | Inr (enc_states, st0) \<Rightarrow>
          (case decode_loop m masks draws enc_states trg tfr [1..<n] st0 of
             Inl e \<Rightarrow> Inl e
           | Inr st \<Rightarrow> Inr (enc_states, st)))"

definition Seq2Seq_forward ::
  "Seq2Seq \<Rightarrow> (nat \<Rightarrow> mask) \<Rightarrow> (nat \<Rightarrow> real) \<Rightarrow> nat \<Rightarrow> int list list \<Rightarrow> int list list \<Rightarrow>
     real \<Rightarrow> error + (tensor3 \<times> nat)" where
  "Seq2Seq_forward m masks draws k src trg teacher_forcing_ratio =
     (case Seq2Seq_run m masks draws k src trg teacher_forcing_ratio (length trg) of
        Inl e \<Rightarrow> Inl e
      | Inr (enc_states, st) \<Rightarrow> Inr (st_outputs st, st_rng st))"

text \<open>The token fed to the decoder in the pass with index \<open>t\<close>, and the scores it returns.\<close>

definition fed_input ::
  "Seq2Seq \<Rightarrow> (nat \<Rightarrow> mask) \<Rightarrow> (nat \<Rightarrow> real) \<Rightarrow> nat \<Rightarrow> int list list \<Rightarrow> int list list \<Rightarrow>
     real \<Rightarrow> nat \<Rightarrow> error + int list" where
  "fed_input m masks draws k src trg tfr t =
     (case Seq2Seq_run m masks draws k src trg tfr t of
        Inl e \<Rightarrow> Inl e
      | Inr (enc_states, st) \<Rightarrow> Inr (st_input st))"

definition scores_at ::
  "Seq2Seq \<Rightarrow> (nat \<Rightarrow> mask) \<Rightarrow> (nat \<Rightarrow> real) \<Rightarrow> nat \<Rightarrow> int list list \<Rightarrow> int list list \<Rightarrow>
     real \<Rightarrow> nat \<Rightarrow> error + matrix" where
  "scores_at m masks draws k src trg tfr t =
     (case Seq2Seq_run m masks draws k src trg tfr t of
        Inl e \<Rightarrow> Inl e
      | Inr (enc_states, st) \<Rightarrow>
          (case DecoderWithAttention_forward (s2s_decoder m) (masks t)
                  (st_input st) (st_hidden st) enc_states of
             Inl e \<Rightarrow> Inl e
           | Inr (output, hidden') \<Rightarrow> Inr output))"

section \<open>The statements of the specification that are compared with the code\<close>

text \<open>
  The comparison that the constructor of \<open>Seq2Seq\<close> carries as a comment: the hidden
  size of the encoder, doubled when it is bidirectional, against the hidden size of the
  decoder.
\<close>

definition effective_enc_hid_dim :: "Encoder \<Rightarrow> nat" where
  "effective_enc_hid_dim e = directions (enc_bidirectional e) * enc_hid_dim e"

text \<open>
  The final state of the last layer of the encoder with both directions joined, as in the
  line \<open>torch.cat((hidden[-2], hidden[-1]), dim=1)\<close>, which the source carries as a
  comment next to the line it executes, \<open>hidden[-1]\<close>.
\<close>

definition last_layer_state :: "bool \<Rightarrow> tensor3 \<Rightarrow> matrix" where
  "last_layer_state bidirectional hidden =
     (if bidirectional
      then map2 (@) (hidden ! (length hidden - 2)) (hidden ! (length hidden - 1))
      else hidden ! (length hidden - 1))"

section \<open>A small model for concrete runs\<close>

text \<open>
  All sizes are 1, the vocabularies have two tokens. The recurrent layers are stand-ins
  with the shapes of the real ones: the encoder passes the embedded source through, the
  decoder keeps its state. The decoder scores token 1 highest after token 0 and token 0
  highest after token 1.
\<close>

definition demo_attention :: Attention where
  "demo_attention = \<lparr>att_enc_hid_dim = 1, att_dec_hid_dim = 1,
     att_attn = \<lparr>in_features = 2, out_features = 1, weight = [[0, 0]], bias = [0]\<rparr>,
     att_v = \<lparr>in_features = 1, out_features = 1, weight = [[0]], bias = [0]\<rparr>\<rparr>"

definition demo_lstm :: "tensor3 \<Rightarrow> error + (tensor3 \<times> tensor3 \<times> tensor3)" where
  "demo_lstm x = (if x = [] then Inl RuntimeError else Inr (x, [last x], [last x]))"

definition demo_gru :: "tensor3 \<Rightarrow> tensor3 \<Rightarrow> error + (tensor3 \<times> tensor3)" where
  "demo_gru x h = Inr (h, h)"

definition eval_mode :: Dropout where
  "eval_mode = \<lparr>drop_p = 1 / 2, drop_training = False\<rparr>"

definition demo_encoder :: Encoder where
  "demo_encoder = \<lparr>enc_input_dim = 2, enc_emb_dim = 1, enc_hid_dim = 1, enc_n_layers = 1,
     enc_bidirectional = False, enc_embedding = [[0], [1]], enc_rnn = demo_lstm,
     enc_dropout = eval_mode\<rparr>"

definition demo_decoder :: DecoderWithAttention where
  "demo_decoder = \<lparr>dec_emb_dim = 1, dec_enc_hid_dim = 1, dec_dec_hid_dim = 1,
     dec_output_dim = 2, dec_attention = demo_attention, dec_embedding = [[0], [1]],
     dec_rnn = demo_gru,
     dec_out = \<lparr>in_features = 3, out_features = 2,
                weight = [[1, 0, 0], [- 1, 0, 0]], bias = [0, 1]\<rparr>,
     dec_dropout = eval_mode\<rparr>"

definition demo_model :: Seq2Seq where
  "demo_model = \<lparr>s2s_encoder = demo_encoder, s2s_decoder = demo_decoder, s2s_device = ''cpu''\<rparr>"

definition demo_masks :: "nat \<Rightarrow> mask" where
  "demo_masks t i j k = True"

definition demo_draws :: "nat \<Rightarrow> real" where
  "demo_draws i = 1 / 2"

text \<open>A second generator, which agrees with the first on its first two draws only.\<close>

definition demo_draws_late :: "nat \<Rightarrow> real" where
  "demo_draws_late i = (if i < 2 then 1 / 2 else 3 / 4)"

text \<open>
  A bidirectional encoder with one layer: the stand-in returns two final states, the one
  of the forward direction first, and they differ.
\<close>

definition demo_bi_lstm :: "tensor3 \<Rightarrow> error + (tensor3 \<times> tensor3 \<times> tensor3)" where
  "demo_bi_lstm x =
     (if x = [] then Inl RuntimeError
      else Inr (map (map (\<lambda>r. r @ r)) x,
                [map (map (\<lambda>a. a + 1)) (last x), map (map (\<lambda>a. a + 2)) (hd x)],
                [last x, hd x]))"

definition demo_bi_encoder :: Encoder where
  "demo_bi_encoder = \<lparr>enc_input_dim = 2, enc_emb_dim = 1, enc_hid_dim = 1, enc_n_layers = 1,
     enc_bidirectional = True, enc_embedding = [[0], [1]], enc_rnn = demo_bi_lstm,
     enc_dropout = eval_mode\<rparr>"

definition demo_bi_model :: Seq2Seq where
  "demo_bi_model =
     \<lparr>s2s_encoder = demo_bi_encoder, s2s_decoder = demo_decoder, s2s_device = ''cpu''\<rparr>"

text \<open>An encoder whose hidden size, 3, is not the hidden size of the decoder, 1.\<close>

definition demo_wide_encoder :: Encoder where
  "demo_wide_encoder = \<lparr>enc_input_dim = 2, enc_emb_dim = 1, enc_hid_dim = 3, enc_n_layers = 1,
     enc_bidirectional = False, enc_embedding = [[0], [1]], enc_rnn = demo_lstm,
     enc_dropout = eval_mode\<rparr>"

text \<open>An attention layer whose score is \<open>tanh\<close> of the encoder output.\<close>

definition probe_attention :: Attention where
  "probe_attention = \<lparr>att_enc_hid_dim = 1, att_dec_hid_dim = 1,
     att_attn = \<lparr>in_features = 2, out_features = 1, weight = [[1, 0]], bias = [0]\<rparr>,
     att_v = \<lparr>in_features = 1, out_features = 1, weight = [[1]], bias = [0]\<rparr>\<rparr>"

section \<open>Models and inputs whose sizes fit\<close>

text \<open>
  What the constructors establish, and what the sizes of encoder and decoder have to
  satisfy for \<open>forward\<close> to run: tables and linear layers of the sizes the constructors
  give them, the recurrent layers with the shapes the library documents, and the
  hidden size of the decoder equal to that of the encoder, the size of \<open>hidden[-1]\<close>.
\<close>

definition valid_tokens :: "int list list \<Rightarrow> nat \<Rightarrow> bool" where
  "valid_tokens idx n = (\<forall>row \<in> set idx. \<forall>i \<in> set row. 0 \<le> i \<and> i < int n)"

definition lstm_contract :: "Encoder \<Rightarrow> bool" where
  "lstm_contract e =
     (\<forall>x S B. 0 < S \<longrightarrow> shape3 x S B (enc_emb_dim e) \<longrightarrow>
        (\<exists>outputs hidden cell. enc_rnn e x = Inr (outputs, hidden, cell) \<and>
           shape3 outputs S B (directions (enc_bidirectional e) * enc_hid_dim e) \<and>
           shape3 hidden (enc_n_layers e * directions (enc_bidirectional e)) B (enc_hid_dim e) \<and>
           shape3 cell (enc_n_layers e * directions (enc_bidirectional e)) B (enc_hid_dim e)))"

definition wf_Encoder :: "Encoder \<Rightarrow> bool" where
  "wf_Encoder e =
     (shape2 (enc_embedding e) (enc_input_dim e) (enc_emb_dim e) \<and>
      0 < enc_n_layers e \<and> lstm_contract e)"

definition gru_contract :: "bool \<Rightarrow> DecoderWithAttention \<Rightarrow> bool" where
  "gru_contract bidirectional d =
     (\<forall>x h B. shape3 x 1 B (dec_emb_dim d + directions bidirectional * dec_enc_hid_dim d) \<longrightarrow>
        shape3 h 1 B (dec_dec_hid_dim d) \<longrightarrow>
        (\<exists>output h'. dec_rnn d x h = Inr (output, h') \<and>
           shape3 output 1 B (dec_dec_hid_dim d) \<and> shape3 h' 1 B (dec_dec_hid_dim d)))"

definition wf_Decoder :: "bool \<Rightarrow> DecoderWithAttention \<Rightarrow> bool" where
  "wf_Decoder bidirectional d =
     (shape2 (dec_embedding d) (dec_output_dim d) (dec_emb_dim d) \<and>
      0 < dec_output_dim d \<and>
      wf_Attention bidirectional (dec_attention d) \<and>
      att_enc_hid_dim (dec_attention d) = dec_enc_hid_dim d \<and>
      att_dec_hid_dim (dec_attention d) = dec_dec_hid_dim d \<and>
      wf_Linear (dec_out d) \<and>
      in_features (dec_out d) =
        dec_emb_dim d + directions bidirectional * dec_enc_hid_dim d + dec_dec_hid_dim d \<and>
      out_features (dec_out d) = dec_output_dim d \<and>
      gru_contract bidirectional d)"

definition wf_Seq2Seq :: "Seq2Seq \<Rightarrow> bool" where
  "wf_Seq2Seq m =
     (wf_Encoder (s2s_encoder m) \<and>
      wf_Decoder (enc_bidirectional (s2s_encoder m)) (s2s_decoder m) \<and>
      dec_enc_hid_dim (s2s_decoder m) = enc_hid_dim (s2s_encoder m) \<and>
      dec_dec_hid_dim (s2s_decoder m) = enc_hid_dim (s2s_encoder m))"

text \<open>The invariant of the loop for a target \<open>[T, B]\<close>.\<close>

definition loop_inv :: "Seq2Seq \<Rightarrow> nat \<Rightarrow> nat \<Rightarrow> loop_state \<Rightarrow> bool" where
  "loop_inv m T B st =
     (length (st_input st) = B \<and>
      (\<forall>i \<in> set (st_input st). 0 \<le> i \<and> i < int (dec_output_dim (s2s_decoder m))) \<and>
      shape3 (st_hidden st) 1 B (dec_dec_hid_dim (s2s_decoder m)) \<and>
      shape3 (st_outputs st) T B (dec_output_dim (s2s_decoder m)))"

section \<open>The loop of \<open>forward\<close>\<close>

lemma decode_loop_snoc:
  "decode_loop m masks draws enc trg tfr (ts @ [t]) st =
     (case decode_loop m masks draws enc trg tfr ts st of
        Inl e \<Rightarrow> Inl e
      | Inr st' \<Rightarrow> decode_step m masks draws enc trg tfr t st')"
  by (induction ts arbitrary: st) (auto split: sum.splits)

lemma Seq2Seq_run_first:
  "n \<le> 1 \<Longrightarrow> Seq2Seq_run m masks draws k src trg tfr n = Seq2Seq_start m masks k src trg"
  by (auto simp: Seq2Seq_run_def split: sum.splits)

lemma Seq2Seq_run_Suc:
  "1 \<le> n \<Longrightarrow> Seq2Seq_run m masks draws k src trg tfr (Suc n) =
     (case Seq2Seq_run m masks draws k src trg tfr n of
        Inl e \<Rightarrow> Inl e
      | Inr (enc, st) \<Rightarrow>
          (case decode_step m masks draws enc trg tfr n st of
             Inl e \<Rightarrow> Inl e
           | Inr st' \<Rightarrow> Inr (enc, st')))"
  by (auto simp: Seq2Seq_run_def decode_loop_snoc split: sum.splits)

lemma Seq2Seq_start_state:
  assumes "Seq2Seq_start m masks k src trg = Inr (enc, st)"
  shows "st_outputs st = zeros3 (length trg) (trg_batch_size trg) (dec_output_dim (s2s_decoder m))
         \<and> st_rng st = k \<and> trg \<noteq> [] \<and> st_input st = trg ! 0"
  using assms
  by (auto simp: Seq2Seq_start_def Let_def hd_conv_nth split: sum.splits if_splits)

lemma decode_step_forced:
  assumes "decode_step m masks draws enc trg tfr t st = Inr st'" "draws (st_rng st) < tfr"
  shows "st_input st' = trg ! t"
  using assms by (auto simp: decode_step_def Let_def split: sum.splits)

lemma decode_step_greedy:
  assumes "decode_step m masks draws enc trg tfr t st = Inr st'" "\<not> draws (st_rng st) < tfr"
  shows "\<exists>output hidden'. DecoderWithAttention_forward (s2s_decoder m) (masks t)
             (st_input st) (st_hidden st) enc = Inr (output, hidden') \<and>
           argmax_last output = Inr (st_input st')"
  using assms by (auto simp: decode_step_def Let_def split: sum.splits)

lemma decode_step_outputs:
  assumes "decode_step m masks draws enc trg tfr t st = Inr st'"
  shows "t < length (st_outputs st) \<and> length (st_outputs st') = length (st_outputs st) \<and>
         (\<forall>i. i \<noteq> t \<longrightarrow> st_outputs st' ! i = st_outputs st ! i) \<and>
         st_rng st' = Suc (st_rng st)"
  using assms
  by (auto simp: decode_step_def store_scores_def Let_def split: sum.splits if_splits)

lemma decode_loop_outputs:
  assumes "decode_loop m masks draws enc trg tfr ts st = Inr st'"
  shows "length (st_outputs st') = length (st_outputs st) \<and>
         (\<forall>i. i \<notin> set ts \<longrightarrow> st_outputs st' ! i = st_outputs st ! i) \<and>
         st_rng st' = st_rng st + length ts"
  using assms
proof (induction ts arbitrary: st)
  case Nil
  then show ?case by simp
next
  case (Cons t ts)
  then obtain st1 where s: "decode_step m masks draws enc trg tfr t st = Inr st1"
    and l: "decode_loop m masks draws enc trg tfr ts st1 = Inr st'"
    by (auto split: sum.splits)
  from decode_step_outputs[OF s] Cons.IH[OF l] show ?case by auto
qed

lemma Seq2Seq_run_untouched:
  assumes "Seq2Seq_run m masks draws k src trg tfr n = Inr (enc, st)"
    and "i = 0 \<or> n \<le> i" and "i < length trg"
  shows "st_outputs st ! i = zeros2 (trg_batch_size trg) (dec_output_dim (s2s_decoder m))"
proof -
  from assms(1) obtain st0 where
    s: "Seq2Seq_start m masks k src trg = Inr (enc, st0)"
    and l: "decode_loop m masks draws enc trg tfr [1..<n] st0 = Inr st"
    by (auto simp: Seq2Seq_run_def split: sum.splits)
  from assms(2) have "i \<notin> set [1..<n]" by auto
  with decode_loop_outputs[OF l] have "st_outputs st ! i = st_outputs st0 ! i" by blast
  with Seq2Seq_start_state[OF s] assms(3) show ?thesis
    by (simp add: zeros3_def)
qed

lemma decode_step_cong:
  assumes "draws1 (st_rng st) = draws2 (st_rng st)" and "masks1 t = masks2 t"
  shows "decode_step m masks1 draws1 enc trg tfr t st =
         decode_step m masks2 draws2 enc trg tfr t st"
  unfolding decode_step_def assms ..

lemma decode_loop_cong:
  assumes "\<forall>i < length ts. draws1 (st_rng st + i) = draws2 (st_rng st + i)"
    and "\<forall>t \<in> set ts. masks1 t = masks2 t"
  shows "decode_loop m masks1 draws1 enc trg tfr ts st =
         decode_loop m masks2 draws2 enc trg tfr ts st"
  using assms
proof (induction ts arbitrary: st)
  case Nil
  then show ?case by simp
next
  case (Cons t ts)
  from Cons.prems have d: "draws1 (st_rng st) = draws2 (st_rng st)" and mk: "masks1 t = masks2 t"
    by auto
  have step: "decode_step m masks1 draws1 enc trg tfr t st =
              decode_step m masks2 draws2 enc trg tfr t st"
    using d mk by (rule decode_step_cong)
  show ?case
  proof (cases "decode_step m masks2 draws2 enc trg tfr t st")
    case (Inl e)
    with step show ?thesis by simp
  next
    case (Inr st1)
    from decode_step_outputs[OF Inr] have k: "st_rng st1 = Suc (st_rng st)" by simp
    have "\<forall>i < length ts. draws1 (st_rng st1 + i) = draws2 (st_rng st1 + i)"
    proof (intro allI impI)
      fix i assume "i < length ts"
      then have "Suc i < length (t # ts)" by simp
      with Cons.prems(1) have "draws1 (st_rng st + Suc i) = draws2 (st_rng st + Suc i)"
        by blast
      with k show "draws1 (st_rng st1 + i) = draws2 (st_rng st1 + i)" by simp
    qed
    moreover from Cons.prems(2) have "\<forall>t \<in> set ts. masks1 t = masks2 t" by simp
    ultimately have "decode_loop m masks1 draws1 enc trg tfr ts st1 =
                     decode_loop m masks2 draws2 enc trg tfr ts st1"
      by (rule Cons.IH)
    with step Inr show ?thesis by simp
  qed
qed

section \<open>Runs of the small model\<close>

lemmas layer_defs = cat_dim2_def mul_bcast_def mul_last_def Linear_forward_def Linear_row_def
  dot_def Embedding_forward_def Dropout_forward_def softmax_def sum_dim0_def
  default_temperature_def

lemma demo_parts [simp]:
  "s2s_decoder demo_model = demo_decoder" "s2s_encoder demo_model = demo_encoder"
  "s2s_decoder demo_bi_model = demo_decoder" "s2s_encoder demo_bi_model = demo_bi_encoder"
  "dec_output_dim demo_decoder = 2"
  by (simp_all add: demo_model_def demo_bi_model_def demo_decoder_def)

lemma upt_1_2: "[Suc 0..<2] = [1]"
  by (simp add: upt_rec)

lemma upt_1_3: "[Suc 0..<3] = [1, 2]"
  by (simp add: upt_rec)

lemma demo_attention_one:
  "Attention_forward demo_attention [[[h]]] [[[c]]] = Inr [[[1]]]"
  by (simp add: Attention_forward_def Attention_scores_def demo_attention_def layer_defs)

lemma demo_encoder_run:
  "Encoder_forward demo_encoder keep [[1]] = Inr ([[[1]]], [[[1]]], [[[1]]])"
  by (simp add: Encoder_forward_def demo_encoder_def demo_lstm_def eval_mode_def layer_defs)

lemma demo_bi_encoder_run:
  "Encoder_forward demo_bi_encoder keep [[1]] = Inr ([[[1, 1]]], [[[2]], [[3]]], [[[1]], [[1]]])"
  by (simp add: Encoder_forward_def demo_bi_encoder_def demo_bi_lstm_def eval_mode_def layer_defs)

lemma demo_decoder_0:
  "DecoderWithAttention_forward demo_decoder keep [0] [[[h]]] [[[c]]] = Inr ([[0, 1]], [[[h]]])"
  by (simp add: DecoderWithAttention_forward_def demo_decoder_def demo_gru_def eval_mode_def
        demo_attention_one layer_defs)

lemma demo_decoder_1:
  "DecoderWithAttention_forward demo_decoder keep [1] [[[h]]] [[[c]]] = Inr ([[1, 0]], [[[h]]])"
  by (simp add: DecoderWithAttention_forward_def demo_decoder_def demo_gru_def eval_mode_def
        demo_attention_one layer_defs)

lemma demo_start:
  "Seq2Seq_start demo_model demo_masks 0 [[1]] [[0], [0], [1]] =
     Inr ([[[1]]], \<lparr>st_input = [0], st_hidden = [[[1]]],
                    st_outputs = [[[0, 0]], [[0, 0]], [[0, 0]]], st_rng = 0\<rparr>)"
  by (simp add: Seq2Seq_start_def demo_encoder_run trg_batch_size_def zeros3_def zeros2_def
        numeral_3_eq_3 numeral_2_eq_2)

lemmas demo_step_defs = decode_step_def demo_decoder_0 demo_decoder_1 store_scores_def
  trg_batch_size_def expand_def argmax_last_def demo_draws_def

lemma demo_forced_2:
  "Seq2Seq_run demo_model demo_masks demo_draws 0 [[1]] [[0], [0], [1]] 1 2 =
     Inr ([[[1]]], \<lparr>st_input = [0], st_hidden = [[[1]]],
                    st_outputs = [[[0, 0]], [[0, 1]], [[0, 0]]], st_rng = 1\<rparr>)"
  by (simp add: Seq2Seq_run_def demo_start upt_1_2 demo_step_defs)

lemma demo_forced_3:
  "Seq2Seq_run demo_model demo_masks demo_draws 0 [[1]] [[0], [0], [1]] 1 3 =
     Inr ([[[1]]], \<lparr>st_input = [1], st_hidden = [[[1]]],
                    st_outputs = [[[0, 0]], [[0, 1]], [[0, 1]]], st_rng = 2\<rparr>)"
  by (simp add: Seq2Seq_run_def demo_start upt_1_3 demo_step_defs)

lemma demo_greedy_1:
  "Seq2Seq_run demo_model demo_masks demo_draws 0 [[1]] [[0], [0], [1]] 0 1 =
     Inr ([[[1]]], \<lparr>st_input = [0], st_hidden = [[[1]]],
                    st_outputs = [[[0, 0]], [[0, 0]], [[0, 0]]], st_rng = 0\<rparr>)"
  by (simp add: Seq2Seq_run_def demo_start)

lemma demo_greedy_2:
  "Seq2Seq_run demo_model demo_masks demo_draws 0 [[1]] [[0], [0], [1]] 0 2 =
     Inr ([[[1]]], \<lparr>st_input = [1], st_hidden = [[[1]]],
                    st_outputs = [[[0, 0]], [[0, 1]], [[0, 0]]], st_rng = 1\<rparr>)"
  by (simp add: Seq2Seq_run_def demo_start upt_1_2 demo_step_defs)

lemma demo_bi_flag: "enc_bidirectional demo_bi_encoder"
  by (simp add: demo_bi_encoder_def)

lemma demo_bi_start:
  "Seq2Seq_start demo_bi_model demo_masks 0 [[1]] [[0]] =
     Inr ([[[1, 1]]],
          \<lparr>st_input = [0], st_hidden = [[[3]]], st_outputs = [[[0, 0]]], st_rng = 0\<rparr>)"
  by (simp add: Seq2Seq_start_def demo_bi_encoder_run trg_batch_size_def zeros3_def
        zeros2_def numeral_2_eq_2)

section \<open>Teacher forcing and greedy feeding\<close>

text \<open>
  Claim C3, as the code has it. With \<open>teacher_forcing_ratio = 1.0\<close> and draws of
  \<open>random.random()\<close> in \<open>[0, 1)\<close>, the token fed to the decoder in the pass with index
  \<open>t \<ge> 1\<close> is the target token before it, \<open>trg[t - 1]\<close>: the pass at \<open>t\<close> ends by
  choosing \<open>trg[t]\<close>, which the next pass consumes.
\<close>

theorem teacher_forcing_feeds_previous_target:
  assumes "fed_input m masks draws k src trg tfr t = Inr inp"
    and "1 \<le> t" and "tfr = 1" and "\<forall>i. 0 \<le> draws i \<and> draws i < 1"
  shows "inp = trg ! (t - 1)"
proof (cases t)
  case 0
  with assms show ?thesis by simp
next
  case (Suc n)
  show ?thesis
  proof (cases "n = 0")
    case True
    with Suc assms(1) show ?thesis
      by (auto simp: fed_input_def Seq2Seq_run_first dest: Seq2Seq_start_state
               split: sum.splits)
  next
    case False
    then have n: "1 \<le> n" by simp
    from assms(1) Suc obtain enc st st' where
      "decode_step m masks draws enc trg tfr n st = Inr st'" "st_input st' = inp"
      by (auto simp: fed_input_def Seq2Seq_run_Suc[OF n] split: sum.splits)
    with assms(3,4) Suc show ?thesis
      using decode_step_forced by fastforce
  qed
qed

theorem teacher_forcing_feeds_previous_target_witness:
  "fed_input demo_model demo_masks demo_draws 0 [[1]] [[0], [0], [1]] 1 2 = Inr [0] \<and>
   [0] = [[0], [0], [1 :: int]] ! (2 - 1)"
proof -
  have f: "fed_input demo_model demo_masks demo_draws 0 [[1]] [[0], [0], [1]] 1 2 = Inr [0]"
    by (simp add: fed_input_def demo_forced_2)
  have d: "\<forall>i. 0 \<le> demo_draws i \<and> demo_draws i < 1"
    by (simp add: demo_draws_def)
  from teacher_forcing_feeds_previous_target[OF f _ _ d] f show ?thesis by simp
qed

text \<open>
  Claim C3 as stated fails: in the pass with index 2 of this run with ratio 1 the decoder
  is fed \<open>trg[1] = [0]\<close>, not \<open>trg[2] = [1]\<close>.
\<close>

theorem teacher_forcing_input_not_current_target:
  "fed_input demo_model demo_masks demo_draws 0 [[1]] [[0], [0], [1]] 1 2 \<noteq>
     Inr ([[0], [0], [1]] ! 2)"
  by (simp add: fed_input_def demo_forced_2)

text \<open>
  Claim C4. With \<open>teacher_forcing_ratio = 0.0\<close> and draws in \<open>[0, 1)\<close>, the token fed
  to the decoder in the pass with index 1 is \<open>trg[0]\<close>, and in every pass with index
  \<open>t \<ge> 2\<close> it is the argmax, over the vocabulary axis, of the scores the decoder
  returned in the pass \<open>t - 1\<close>.
\<close>

theorem greedy_feeds_previous_argmax:
  assumes "tfr = 0" and "\<forall>i. 0 \<le> draws i \<and> draws i < 1"
  shows "(fed_input m masks draws k src trg tfr 1 = Inr inp \<longrightarrow> inp = trg ! 0) \<and>
         (2 \<le> t \<longrightarrow> fed_input m masks draws k src trg tfr t = Inr inp \<longrightarrow>
            (\<exists>output. scores_at m masks draws k src trg tfr (t - 1) = Inr output \<and>
                       argmax_last output = Inr inp))"
proof (intro conjI impI)
  assume "fed_input m masks draws k src trg tfr 1 = Inr inp"
  then show "inp = trg ! 0"
    by (auto simp: fed_input_def Seq2Seq_run_first dest: Seq2Seq_start_state
             split: sum.splits)
next
  assume t: "2 \<le> t" and f: "fed_input m masks draws k src trg tfr t = Inr inp"
  then obtain n where n: "t = Suc n" "1 \<le> n" by (cases t) auto
  from f n obtain enc st st' where
    r: "Seq2Seq_run m masks draws k src trg tfr n = Inr (enc, st)"
    and s: "decode_step m masks draws enc trg tfr n st = Inr st'" and i: "st_input st' = inp"
    by (auto simp: fed_input_def Seq2Seq_run_Suc[OF n(2)] split: sum.splits)
  from assms have "\<not> draws (st_rng st) < tfr" by (simp add: not_less)
  from decode_step_greedy[OF s this] r i n
  show "\<exists>output. scores_at m masks draws k src trg tfr (t - 1) = Inr output \<and>
                  argmax_last output = Inr inp"
    by (auto simp: scores_at_def)
qed

theorem greedy_feeds_previous_argmax_witness:
  "fed_input demo_model demo_masks demo_draws 0 [[1]] [[0], [0], [1]] 0 1 = Inr [0] \<and>
   fed_input demo_model demo_masks demo_draws 0 [[1]] [[0], [0], [1]] 0 2 = Inr [1] \<and>
   scores_at demo_model demo_masks demo_draws 0 [[1]] [[0], [0], [1]] 0 (2 - 1) = Inr [[0, 1]] \<and>
   argmax_last [[0, 1]] = Inr [1]"
proof -
  have d: "\<forall>i. 0 \<le> demo_draws i \<and> demo_draws i < 1"
    by (simp add: demo_draws_def)
  have f1: "fed_input demo_model demo_masks demo_draws 0 [[1]] [[0], [0], [1]] 0 1 = Inr [0]"
    by (simp add: fed_input_def demo_greedy_1[simplified])
  have f2: "fed_input demo_model demo_masks demo_draws 0 [[1]] [[0], [0], [1]] 0 2 = Inr [1]"
    by (simp add: fed_input_def demo_greedy_2)
  have s1: "scores_at demo_model demo_masks demo_draws 0 [[1]] [[0], [0], [1]] 0 (2 - 1)
              = Inr [[0, 1]]"
    by (simp add: scores_at_def demo_greedy_1[simplified] demo_decoder_0)
  from greedy_feeds_previous_argmax[OF refl d,
      of demo_model demo_masks 0 "[[1]]" "[[0], [0], [1]]" "[1]" 2] f1 f2 s1
  show ?thesis by simp
qed

section \<open>The output tensor\<close>

text \<open>
  Claim C5. Whenever \<open>forward\<close> returns, position 0 of the returned tensor is the
  \<open>[batch, vocab]\<close> tensor of zeros, and it is so in every state the loop passes
  through: the loop writes positions \<open>1, \<dots>, trg_len - 1\<close> only.
\<close>

theorem output_position_zero_stays_zero:
  assumes "Seq2Seq_forward m masks draws k src trg tfr = Inr (out, k')"
  shows "trg \<noteq> [] \<and> length out = length trg \<and>
         out ! 0 = zeros2 (trg_batch_size trg) (dec_output_dim (s2s_decoder m)) \<and>
         (\<forall>n enc st. Seq2Seq_run m masks draws k src trg tfr n = Inr (enc, st) \<longrightarrow>
            st_outputs st ! 0 = zeros2 (trg_batch_size trg) (dec_output_dim (s2s_decoder m)))"
proof -
  from assms obtain enc st where
    r: "Seq2Seq_run m masks draws k src trg tfr (length trg) = Inr (enc, st)"
    and o: "out = st_outputs st"
    by (auto simp: Seq2Seq_forward_def split: sum.splits)
  from r obtain st0 where
    s: "Seq2Seq_start m masks k src trg = Inr (enc, st0)"
    and l: "decode_loop m masks draws enc trg tfr [1..<length trg] st0 = Inr st"
    by (auto simp: Seq2Seq_run_def split: sum.splits)
  from Seq2Seq_start_state[OF s] have ne: "trg \<noteq> []"
    and len0: "length (st_outputs st0) = length trg" by (simp_all add: zeros3_def)
  from decode_loop_outputs[OF l] len0 o have len: "length out = length trg" by simp
  from ne have pos: "0 < length trg" by simp
  have z: "st_outputs st' ! 0 = zeros2 (trg_batch_size trg) (dec_output_dim (s2s_decoder m))"
    if "Seq2Seq_run m masks draws k src trg tfr n = Inr (enc', st')" for n enc' st'
    using Seq2Seq_run_untouched[OF that _ pos] by simp
  from ne len z[OF r] o z show ?thesis by blast
qed

theorem output_position_zero_stays_zero_witness:
  "Seq2Seq_forward demo_model demo_masks demo_draws 0 [[1]] [[0], [0], [1]] 1 =
     Inr ([[[0, 0]], [[0, 1]], [[0, 1]]], 2) \<and>
   [[[0, 0]], [[0, 1]], [[0, 1 :: real]]] ! 0 = zeros2 1 2"
proof -
  have f: "Seq2Seq_forward demo_model demo_masks demo_draws 0 [[1]] [[0], [0], [1]] 1 =
             Inr ([[[0, 0]], [[0, 1]], [[0, 1]]], 2)"
    by (simp add: Seq2Seq_forward_def demo_forced_3 numeral_3_eq_3[symmetric])
  from output_position_zero_stays_zero[OF f] f show ?thesis
    by (simp add: trg_batch_size_def)
qed

text \<open>
  Claim C10. For a target of length 1 the loop has no pass: when the encoder returns
  (with a state to index), \<open>forward\<close> returns the zero tensor \<open>[1, batch, vocab]\<close> and
  the generator where it was, whatever the decoder is; no call of the decoder and no
  draw enters the result.
\<close>

theorem single_token_target_skips_loop:
  assumes "length trg = 1"
    and "Encoder_forward (s2s_encoder m) (masks 0) src = Inr (enc_states, hidden, cell)"
    and "hidden \<noteq> []"
  shows "Seq2Seq_forward m masks draws k src trg tfr =
           Inr (zeros3 1 (trg_batch_size trg) (dec_output_dim (s2s_decoder m)), k)"
  using assms
  by (auto simp: Seq2Seq_forward_def Seq2Seq_run_def Seq2Seq_start_def Let_def)

theorem single_token_target_skips_loop_witness:
  "Seq2Seq_forward demo_model demo_masks demo_draws 7 [[1]] [[0]] (1 / 2) = Inr ([[[0, 0]]], 7)"
proof -
  have e: "Encoder_forward (s2s_encoder demo_model) (demo_masks 0) [[1]] =
             Inr ([[[1]]], [[[1]]], [[[1]]])"
    by (simp add: demo_encoder_run)
  from single_token_target_skips_loop[where trg = "[[0]]" and m = demo_model
         and masks = demo_masks and src = "[[1]]" and draws = demo_draws and k = 7
         and tfr = "1 / 2", OF _ e]
  show ?thesis
    by (simp add: trg_batch_size_def zeros3_def zeros2_def numeral_2_eq_2)
qed

section \<open>Determinism\<close>

text \<open>
  Claim C9. The result of \<open>forward\<close> is a function of the model, the source, the target,
  the ratio, the draws of the generator and the dropout masks; of the draws only the
  \<open>trg_len - 1\<close> the loop takes matter, and of the masks those of the calls made. Two runs
  that agree on these return the same result, entry for entry (and the same error when
  they raise).
\<close>

theorem forward_determined_by_consumed_draws:
  assumes "\<forall>i < length trg - 1. draws1 (k + i) = draws2 (k + i)"
    and "\<forall>t \<le> length trg - 1. masks1 t = masks2 t"
  shows "Seq2Seq_forward m masks1 draws1 k src trg tfr =
         Seq2Seq_forward m masks2 draws2 k src trg tfr"
proof -
  from assms(2) have m0: "masks1 0 = masks2 0" by simp
  then have s: "Seq2Seq_start m masks1 k src trg = Seq2Seq_start m masks2 k src trg"
    by (simp add: Seq2Seq_start_def)
  have "Seq2Seq_run m masks1 draws1 k src trg tfr (length trg) =
        Seq2Seq_run m masks2 draws2 k src trg tfr (length trg)"
  proof (cases "Seq2Seq_start m masks2 k src trg")
    case (Inl e)
    with s show ?thesis by (simp add: Seq2Seq_run_def)
  next
    case (Inr p)
    obtain enc st0 where p: "p = (enc, st0)" by (cases p)
    from Seq2Seq_start_state[of m masks2 k src trg enc st0] Inr p
    have k: "st_rng st0 = k" by simp
    have "decode_loop m masks1 draws1 enc trg tfr [1..<length trg] st0 =
          decode_loop m masks2 draws2 enc trg tfr [1..<length trg] st0"
      using assms k by (intro decode_loop_cong) auto
    with s Inr p show ?thesis by (simp add: Seq2Seq_run_def)
  qed
  then show ?thesis by (simp add: Seq2Seq_forward_def)
qed

theorem forward_determined_by_consumed_draws_witness:
  "Seq2Seq_forward demo_model demo_masks demo_draws 0 [[1]] [[0], [0], [1]] (3 / 5) =
   Seq2Seq_forward demo_model demo_masks demo_draws_late 0 [[1]] [[0], [0], [1]] (3 / 5) \<and>
   demo_draws 2 \<noteq> demo_draws_late 2"
  using forward_determined_by_consumed_draws[of "[[0], [0], [1]]" demo_draws 0 demo_draws_late
          demo_masks demo_masks demo_model "[[1]]" "3 / 5"]
  by (simp add: demo_draws_def demo_draws_late_def)

section \<open>The initial state of the decoder\<close>

text \<open>
  Claim C6, as the code has it. The loop starts from \<open>hidden[-1].unsqueeze(0)\<close>: the
  last entry of the final hidden states of the encoder, as a tensor with first axis 1
  and the batch and hidden sizes of that entry. This is the state of the last layer
  when the encoder has one direction; for a bidirectional encoder it is the state of one
  direction only.
\<close>

theorem initial_hidden_is_last_entry:
  assumes "Seq2Seq_start m masks k src trg = Inr (enc_states, st)"
  shows "\<exists>hidden cell.
           Encoder_forward (s2s_encoder m) (masks 0) src = Inr (enc_states, hidden, cell) \<and>
           st_hidden st = [last_layer_state False hidden] \<and>
           (\<forall>n b h. shape3 hidden n b h \<longrightarrow> shape3 (st_hidden st) 1 b h)"
  using assms
  by (auto simp: Seq2Seq_start_def Let_def last_layer_state_def last_conv_nth shape3_def
           split: sum.splits if_splits)

theorem initial_hidden_is_last_entry_witness:
  "Encoder_forward (s2s_encoder demo_bi_model) (demo_masks 0) [[1]] =
     Inr ([[[1, 1]]], [[[2]], [[3]]], [[[1]], [[1]]]) \<and>
   st_hidden \<lparr>st_input = [0], st_hidden = [[[3]]], st_outputs = [[[0, 0]]], st_rng = 0\<rparr> =
     [last_layer_state False [[[2]], [[3]]]]"
proof -
  from initial_hidden_is_last_entry[OF demo_bi_start] show ?thesis
    by (simp add: demo_bi_encoder_run)
qed

text \<open>
  Claim C6 as stated fails for a bidirectional encoder: the final states of the last layer
  are \<open>[[2]]\<close> (forward) and \<open>[[3]]\<close> (backward), the decoder starts from \<open>[[[3]]]\<close>, and
  both directions together would be \<open>[[[2, 3]]]\<close>.
\<close>

theorem initial_hidden_misses_forward_direction:
  "enc_bidirectional (s2s_encoder demo_bi_model) \<and>
   Encoder_forward (s2s_encoder demo_bi_model) (demo_masks 0) [[1]] =
     Inr ([[[1, 1]]], [[[2]], [[3]]], [[[1]], [[1]]]) \<and>
   Seq2Seq_start demo_bi_model demo_masks 0 [[1]] [[0]] =
     Inr ([[[1, 1]]],
          \<lparr>st_input = [0], st_hidden = [[[3]]], st_outputs = [[[0, 0]]], st_rng = 0\<rparr>) \<and>
   [[[3]]] \<noteq> [last_layer_state True [[[2]], [[3]]]]"
  by (simp add: demo_bi_start demo_bi_encoder_run demo_bi_flag last_layer_state_def)

section \<open>The constructor\<close>

text \<open>
  Claim C8, as the code has it. The constructor of \<open>Seq2Seq\<close> compares nothing: for
  every encoder and decoder it returns the model holding them.
\<close>

theorem constructor_never_raises:
  "Seq2Seq_init encoder decoder device \<noteq> Inl err \<and>
   (\<exists>m. Seq2Seq_init encoder decoder device = Inr m \<and>
        s2s_encoder m = encoder \<and> s2s_decoder m = decoder)"
  by (simp add: Seq2Seq_init_def)

text \<open>
  Claim C8 as stated fails: an encoder of hidden size 3 and a decoder of hidden size 1
  are accepted.
\<close>

theorem constructor_accepts_mismatch:
  "effective_enc_hid_dim demo_wide_encoder \<noteq> dec_dec_hid_dim demo_decoder \<and>
   Seq2Seq_init demo_wide_encoder demo_decoder ''cpu'' \<noteq> Inl AssertionError"
  by (simp add: effective_enc_hid_dim_def directions_def demo_wide_encoder_def
        demo_decoder_def Seq2Seq_init_def)

section \<open>Shapes, and the normalisation of softmax\<close>

lemma shape2_nth: "shape2 m r c \<Longrightarrow> i < r \<Longrightarrow> length (m ! i) = c"
  by (auto simp: shape2_def)

lemma shape3_nth: "shape3 x a b c \<Longrightarrow> i < a \<Longrightarrow> shape2 (x ! i) b c"
  by (auto simp: shape3_def)

lemma shape2_iff: "shape2 m r c \<longleftrightarrow> length m = r \<and> (\<forall>i<r. length (m ! i) = c)"
  by (auto simp: shape2_def all_set_conv_all_nth)

lemma shape3_iff: "shape3 x a b c \<longleftrightarrow> length x = a \<and> (\<forall>i<a. shape2 (x ! i) b c)"
  by (auto simp: shape3_def all_set_conv_all_nth)

lemma shape2_map2:
  assumes "shape2 m B K" "shape2 p B K"
  shows "shape2 (map2 (map2 f) m p) B K"
  using assms by (simp add: shape2_iff)

lemma map2_nth2:
  assumes "shape2 m B K" "shape2 p B K" "b < B" "k < K"
  shows "map2 (map2 f) m p ! b ! k = f (m ! b ! k) (p ! b ! k)"
  using assms by (simp add: shape2_iff)

lemmas shape2_add = shape2_map2[where f = "(+)"]
lemmas add_nth = map2_nth2[where f = "(+)"]

lemma foldl_add:
  fixes m :: matrix
  assumes "shape2 m B K" "\<forall>p \<in> set ms. shape2 p B K"
  shows "shape2 (foldl (map2 (map2 (+))) m ms) B K \<and>
         (\<forall>b<B. \<forall>k<K. foldl (map2 (map2 (+))) m ms ! b ! k =
            m ! b ! k + sum_list (map (\<lambda>p. p ! b ! k) ms))"
  using assms
proof (induction ms arbitrary: m)
  case Nil
  then show ?case by simp
next
  case (Cons p ms)
  from Cons.prems have p: "shape2 p B K" by simp
  have s: "shape2 (map2 (map2 (+)) m p) B K" by (rule shape2_add[OF Cons.prems(1) p])
  from Cons.prems have "\<forall>q \<in> set ms. shape2 q B K" by simp
  from Cons.IH[OF s this] add_nth[OF Cons.prems(1) p]
  show ?case by (simp add: add.assoc)
qed

lemma sum_dim0_nth:
  assumes "shape3 x L B K" "0 < L"
  shows "shape2 (sum_dim0 x) B K \<and>
         (\<forall>b<B. \<forall>k<K. sum_dim0 x ! b ! k = sum_list (map (\<lambda>p. p ! b ! k) x))"
proof (cases x)
  case Nil
  with assms show ?thesis by (simp add: shape3_def)
next
  case (Cons m ms)
  with assms have "shape2 m B K" "\<forall>p \<in> set ms. shape2 p B K" by (auto simp: shape3_def)
  from foldl_add[OF this] Cons show ?thesis by (simp add: sum_dim0_def)
qed

lemma sum_list_div: "sum_list (map (\<lambda>x. f x / (c::real)) xs) = sum_list (map f xs) / c"
  by (induction xs) (simp_all add: add_divide_distrib)

lemma sum_list_pos_real:
  "xs \<noteq> [] \<Longrightarrow> \<forall>x \<in> set xs. 0 < f x \<Longrightarrow> 0 < (sum_list (map f xs) :: real)"
proof (induction xs)
  case Nil
  then show ?case by simp
next
  case (Cons a xs)
  show ?case
  proof (cases "xs = []")
    case True
    with Cons.prems show ?thesis by simp
  next
    case False
    with Cons have "0 < sum_list (map f xs)" "0 < f a" by simp_all
    then show ?thesis by simp
  qed
qed

lemmas div_nth = map2_nth2[where f = "(/)"]
lemmas shape2_div = shape2_map2[where f = "(/)"]

lemma shape3_map3: "shape3 x L B K \<Longrightarrow> shape3 (map (map (map f)) x) L B K"
  by (auto simp: shape3_def shape2_def)

lemma map3_nth:
  "shape3 x L B K \<Longrightarrow> p < L \<Longrightarrow> b < B \<Longrightarrow> k < K \<Longrightarrow>
     map (map (map f)) x ! p ! b ! k = f (x ! p ! b ! k)"
  by (simp add: shape3_iff shape2_iff)

lemma softmax_entries:
  assumes x: "shape3 x L B K" and L: "0 < L"
  shows "shape3 (softmax x T) L B K \<and>
         (\<forall>p<L. \<forall>b<B. \<forall>k<K. softmax x T ! p ! b ! k =
            exp (x ! p ! b ! k / T) / sum_list (map (\<lambda>q. exp (q ! b ! k / T)) x)) \<and>
         (\<forall>b<B. \<forall>k<K. sum_list (map (\<lambda>p. p ! b ! k) (softmax x T)) = 1)"
proof -
  define e where "e = map (map (map (\<lambda>a. exp (a / T)))) x"
  have e: "shape3 e L B K" unfolding e_def by (rule shape3_map3[OF x])
  note s = sum_dim0_nth[OF e L]
  have sm: "softmax x T = map (\<lambda>p. map2 (map2 (/)) p (sum_dim0 e)) e"
    by (simp add: softmax_def e_def Let_def)
  have ex: "e ! p ! b ! k = exp (x ! p ! b ! k / T)" if "p < L" "b < B" "k < K" for p b k
    using that x by (simp add: e_def map3_nth)
  have tot: "sum_list (map (\<lambda>p. p ! b ! k) e) = sum_list (map (\<lambda>q. exp (q ! b ! k / T)) x)"
    if "b < B" "k < K" for b k
    unfolding e_def map_map comp_def using x that
    by (intro arg_cong[where f = sum_list] map_cong refl) (auto simp: shape3_def shape2_iff)
  have sh: "shape3 (softmax x T) L B K"
    unfolding sm using e s by (auto simp: shape3_def intro: shape2_div)
  have ent: "softmax x T ! p ! b ! k =
            exp (x ! p ! b ! k / T) / sum_list (map (\<lambda>q. exp (q ! b ! k / T)) x)"
    if "p < L" "b < B" "k < K" for p b k
  proof -
    from e that have "shape2 (e ! p) B K" and "length e = L" by (auto simp: shape3_def)
    with that s show ?thesis
      by (simp add: sm div_nth ex tot)
  qed
  have one: "sum_list (map (\<lambda>p. p ! b ! k) (softmax x T)) = 1" if "b < B" "k < K" for b k
  proof -
    have "sum_list (map (\<lambda>p. p ! b ! k) (softmax x T)) =
          sum_list (map (\<lambda>p. p ! b ! k / sum_dim0 e ! b ! k) e)"
      unfolding sm map_map comp_def using e s that
      by (intro arg_cong[where f = sum_list] map_cong refl) (auto simp: shape3_def div_nth)
    also have "\<dots> = sum_list (map (\<lambda>p. p ! b ! k) e) / sum_dim0 e ! b ! k"
      by (rule sum_list_div)
    also have "\<dots> = sum_list (map (\<lambda>q. exp (q ! b ! k / T)) x) / sum_list (map (\<lambda>q. exp (q ! b ! k / T)) x)"
      using s that by (simp add: tot)
    also have "\<dots> = 1"
    proof -
      from x L have "x \<noteq> []" by (auto simp: shape3_def)
      then have "0 < sum_list (map (\<lambda>q. exp (q ! b ! k / T)) x)"
        by (rule sum_list_pos_real) simp
      then show ?thesis by simp
    qed
    finally show ?thesis .
  qed
  from sh ent one show ?thesis by blast
qed


lemma shape3_axes: "shape3 x L B K \<Longrightarrow> shape2 x L B"
  by (auto simp: shape3_def shape2_def)

lemma length_Linear_row:
  "length (Linear_row l x) = min (length (weight l)) (length (bias l))"
  by (simp add: Linear_row_def)

lemma Linear_rows_shape:
  "shape2 x L B \<Longrightarrow>
     shape3 (map (map (Linear_row l)) x) L B (min (length (weight l)) (length (bias l)))"
  by (auto simp: shape3_def shape2_def length_Linear_row)

lemma Linear_forward_axes:
  assumes "Linear_forward l x = Inr y" "shape2 x L B"
  shows "shape3 y L B (min (length (weight l)) (length (bias l)))"
  using assms Linear_rows_shape[of x L B l]
  by (auto simp: Linear_forward_def split: if_splits)

lemma Linear_forward_total:
  assumes "wf_Linear l" "shape3 x L B (in_features l)"
  shows "\<exists>y. Linear_forward l x = Inr y \<and> shape3 y L B (out_features l)"
proof -
  from assms(2) have ok: "\<forall>m \<in> set x. \<forall>r \<in> set m. length r = in_features l"
    by (auto simp: shape3_def shape2_def)
  from assms(1) have "min (length (weight l)) (length (bias l)) = out_features l"
    by (simp add: wf_Linear_def shape2_def)
  with Linear_rows_shape[OF shape3_axes[OF assms(2)], of l] ok show ?thesis
    by (simp add: Linear_forward_def)
qed

lemma cat_dim2_axes:
  assumes "cat_dim2 x y = Inr z" "shape2 x L B"
  shows "shape2 z L B"
proof -
  from assms(1) have len: "length x = length y"
    and rows: "list_all2 (\<lambda>p q. length p = length q) x y"
    and z: "z = map2 (map2 (@)) x y"
    by (auto simp: cat_dim2_def split: if_splits)
  from rows have "\<forall>i<length x. length (x ! i) = length (y ! i)"
    by (simp add: list_all2_conv_all_nth)
  with assms(2) len show ?thesis
    by (simp add: z shape2_iff)
qed

lemma cat_dim2_total:
  assumes "shape3 x L B E" "shape3 y L B D"
  shows "\<exists>z. cat_dim2 x y = Inr z \<and> shape3 z L B (E + D)"
proof -
  from assms have len: "length x = length y" by (simp add: shape3_def)
  from assms have rows: "list_all2 (\<lambda>p q. length p = length q) x y"
    by (simp add: list_all2_conv_all_nth shape3_iff shape2_iff)
  have "shape3 (map2 (map2 (@)) x y) L B (E + D)"
    using assms by (simp add: shape3_iff shape2_iff)
  with len rows show ?thesis by (simp add: cat_dim2_def)
qed

lemma repeat_hidden: "shape3 hidden 1 B D \<Longrightarrow> shape3 (concat (replicate L hidden)) L B D"
proof -
  assume h: "shape3 hidden 1 B D"
  then obtain m where m: "hidden = [m]" by (cases hidden) (auto simp: shape3_def)
  have "concat (replicate L [m]) = replicate L m" by (induction L) simp_all
  with h m show ?thesis by (auto simp: shape3_def)
qed

lemma Attention_scores_axes:
  assumes "Attention_scores a hidden enc = Inr s" "shape3 enc L B E"
  shows "\<exists>K. shape3 s L B K"
proof -
  from assms(1) obtain conc pre where
    c: "cat_dim2 enc (concat (replicate (length enc) hidden)) = Inr conc"
    and p: "Linear_forward (att_attn a) conc = Inr pre"
    and s: "Linear_forward (att_v a) (map (map (map tanh)) pre) = Inr s"
    by (auto simp: Attention_scores_def Let_def split: sum.splits)
  from cat_dim2_axes[OF c shape3_axes[OF assms(2)]] have "shape2 conc L B" .
  from Linear_forward_axes[OF p this] obtain Ka where "shape3 pre L B Ka" by blast
  then have "shape2 (map (map (map tanh)) pre) L B"
    by (intro shape3_axes[where K = Ka] shape3_map3)
  from Linear_forward_axes[OF s this] show ?thesis by blast
qed

lemma Attention_scores_total:
  assumes wf: "wf_Attention bid a"
    and h: "shape3 hidden 1 B (att_dec_hid_dim a)"
    and e: "shape3 enc L B (directions bid * att_enc_hid_dim a)"
  shows "\<exists>s. Attention_scores a hidden enc = Inr s \<and> shape3 s L B 1"
proof -
  from e have L: "length enc = L" by (simp add: shape3_def)
  from cat_dim2_total[OF e repeat_hidden[OF h, of L]] obtain conc where
    c: "cat_dim2 enc (concat (replicate L hidden)) = Inr conc"
    and cs: "shape3 conc L B (directions bid * att_enc_hid_dim a + att_dec_hid_dim a)"
    by blast
  from wf cs have "shape3 conc L B (in_features (att_attn a))"
    by (simp add: wf_Attention_def)
  with wf Linear_forward_total[of "att_attn a" conc L B] obtain pre where
    p: "Linear_forward (att_attn a) conc = Inr pre"
    and ps: "shape3 pre L B (out_features (att_attn a))"
    by (auto simp: wf_Attention_def)
  from wf shape3_map3[OF ps, of tanh]
  have "shape3 (map (map (map tanh)) pre) L B (in_features (att_v a))"
    by (simp add: wf_Attention_def)
  with wf Linear_forward_total[of "att_v a" "map (map (map tanh)) pre" L B] obtain s where
    "Linear_forward (att_v a) (map (map (map tanh)) pre) = Inr s" "shape3 s L B 1"
    by (auto simp: wf_Attention_def)
  with c p L show ?thesis
    by (simp add: Attention_scores_def)
qed

lemma probe_scores:
  "Attention_scores probe_attention [[[0]]] [[[0]], [[1]]] = Inr [[[0]], [[tanh 1]]]"
  by (simp add: Attention_scores_def probe_attention_def cat_dim2_def Linear_forward_def
        Linear_row_def dot_def numeral_2_eq_2)

lemma softmax_differs: "softmax [[[0]], [[tanh 1]]] 10 \<noteq> softmax [[[0]], [[tanh 1]]] 5"
proof
  assume "softmax [[[0]], [[tanh 1]]] 10 = softmax [[[0]], [[tanh 1]]] 5"
  then have "1 / (1 + exp (tanh 1 / 10)) = 1 / (1 + exp (tanh (1::real) / 5))"
    by (simp add: softmax_def sum_dim0_def)
  then have "exp (tanh 1 / 10) = exp (tanh (1::real) / 5)"
    by (simp add: add_pos_pos add_nonneg_eq_0_iff field_simps)
  then have "tanh (1::real) = 0" by simp
  then show False by simp
qed


lemma demo_attention_wf: "wf_Attention False demo_attention"
  by (simp add: wf_Attention_def wf_Linear_def shape2_def directions_def demo_attention_def)

section \<open>Attention weights\<close>

text \<open>
  Claim C7, as the code has it. The weights are \<open>exp (s / T)\<close> divided by the sum of
  \<open>exp (s / T)\<close> over the source positions, for the scores \<open>s\<close> and \<open>T = 10\<close>: the
  module calls \<open>softmax\<close> without a temperature, so the default of \<open>softmax\<close> applies,
  and its constructor takes no temperature.
\<close>

theorem attention_temperature_is_ten:
  assumes "Attention_scores a hidden enc = Inr s"
    and "shape3 s L B K" and "p < L" and "b < B" and "k < K"
  shows "\<exists>w. Attention_forward a hidden enc = Inr w \<and>
             w = softmax s 10 \<and>
             w ! p ! b ! k =
               exp (s ! p ! b ! k / 10) / sum_list (map (\<lambda>q. exp (q ! b ! k / 10)) s)"
proof -
  from assms(3) have "0 < L" by simp
  from softmax_entries[OF assms(2) this, of 10] assms show ?thesis
    by (simp add: Attention_forward_def default_temperature_def)
qed

theorem attention_temperature_is_ten_witness:
  "Attention_forward probe_attention [[[0]]] [[[0]], [[1]]] =
     Inr (softmax [[[0]], [[tanh 1]]] 10) \<and>
   softmax [[[0]], [[tanh 1]]] 10 ! 1 ! 0 ! 0 = exp (tanh 1 / 10) / (1 + exp (tanh 1 / 10))"
proof -
  have s: "shape3 [[[0]], [[tanh (1 :: real)]]] 2 1 1"
    by (simp add: shape3_def shape2_def)
  from attention_temperature_is_ten[OF probe_scores s, of 1 0 0]
  show ?thesis by auto
qed

text \<open>
  Claim C7 as stated fails: no construction makes the module use another temperature.
  For the scores \<open>0\<close> and \<open>tanh 1\<close> of this module the weights are not those of the
  temperature 5.
\<close>

theorem attention_ignores_other_temperature:
  "Attention_scores probe_attention [[[0]]] [[[0]], [[1]]] = Inr [[[0]], [[tanh 1]]] \<and>
   Attention_forward probe_attention [[[0]]] [[[0]], [[1]]] \<noteq> Inr (softmax [[[0]], [[tanh 1]]] 5)"
  using softmax_differs
  by (simp add: probe_scores Attention_forward_def default_temperature_def)

section \<open>No shape error in a model whose sizes fit\<close>

lemma Embedding_total:
  assumes "shape2 table n e" "shape2 idx S B" "valid_tokens idx n"
  shows "\<exists>emb. Embedding_forward table idx = Inr emb \<and> shape3 emb S B e"
proof -
  from assms(1) have n: "length table = n" and rows: "\<forall>i<n. length (table ! i) = e"
    by (simp_all add: shape2_iff)
  from assms(3) n have ok: "\<forall>row \<in> set idx. \<forall>i \<in> set row. 0 \<le> i \<and> i < int (length table)"
    by (simp add: valid_tokens_def)
  have "length (table ! nat i) = e" if "row \<in> set idx" "i \<in> set row" for row i
  proof -
    from ok that n have "0 \<le> i" "i < int n" by auto
    then have "nat i < n" by simp
    with rows show ?thesis by simp
  qed
  with assms(2) have "shape3 (map (map (\<lambda>i. table ! nat i)) idx) S B e"
    by (auto simp: shape3_def shape2_def)
  with ok show ?thesis by (simp add: Embedding_forward_def)
qed

lemma Dropout_shape:
  assumes "shape3 x S B K"
  shows "shape3 (Dropout_forward d keep x) S B K"
  using assms by (simp add: Dropout_forward_def shape3_iff shape2_iff nth_enumerate_eq)

lemma Encoder_total:
  assumes "wf_Encoder e" "shape2 src S B" "0 < S" "valid_tokens src (enc_input_dim e)"
  shows "\<exists>outputs hidden cell. Encoder_forward e keep src = Inr (outputs, hidden, cell) \<and>
           shape3 outputs S B (directions (enc_bidirectional e) * enc_hid_dim e) \<and>
           shape3 hidden (enc_n_layers e * directions (enc_bidirectional e)) B (enc_hid_dim e)"
proof -
  from assms(1) have t: "shape2 (enc_embedding e) (enc_input_dim e) (enc_emb_dim e)"
    and c: "lstm_contract e" by (simp_all add: wf_Encoder_def)
  from Embedding_total[OF t assms(2,4)] obtain emb where
    emb: "Embedding_forward (enc_embedding e) src = Inr emb" "shape3 emb S B (enc_emb_dim e)"
    by blast
  from Dropout_shape[OF emb(2)] have "shape3 (Dropout_forward (enc_dropout e) keep emb) S B (enc_emb_dim e)" .
  with c assms(3) obtain outputs hidden cell where
    "enc_rnn e (Dropout_forward (enc_dropout e) keep emb) = Inr (outputs, hidden, cell)"
    "shape3 outputs S B (directions (enc_bidirectional e) * enc_hid_dim e)"
    "shape3 hidden (enc_n_layers e * directions (enc_bidirectional e)) B (enc_hid_dim e)"
    unfolding lstm_contract_def by blast
  with emb(1) show ?thesis by (simp add: Encoder_forward_def)
qed

lemma length_mul_last: "length u = 1 \<Longrightarrow> length (mul_last u w) = length w"
  by (simp add: mul_last_def)

lemma mul_bcast_total:
  assumes "shape3 a L B 1" "shape3 x L B E"
  shows "\<exists>w. mul_bcast a x = Inr w \<and> shape3 w L B E"
proof -
  from assms have len: "length a = length x" by (simp add: shape3_def)
  from assms have rows: "list_all2 (\<lambda>p q. length p = length q \<and>
            list_all2 (\<lambda>u w. length u = length w \<or> length u = 1 \<or> length w = 1) p q) a x"
    by (simp add: list_all2_conv_all_nth shape3_iff shape2_iff)
  have "shape3 (map2 (map2 mul_last) a x) L B E"
    using assms by (simp add: shape3_iff shape2_iff length_mul_last)
  with len rows show ?thesis by (simp add: mul_bcast_def)
qed

lemma Attention_total:
  assumes "wf_Attention bid a" "shape3 hidden 1 B (att_dec_hid_dim a)"
    and "shape3 enc L B (directions bid * att_enc_hid_dim a)" "0 < L"
  shows "\<exists>w. Attention_forward a hidden enc = Inr w \<and> shape3 w L B 1"
proof -
  from Attention_scores_total[OF assms(1-3)] obtain s where
    s: "Attention_scores a hidden enc = Inr s" "shape3 s L B 1" by blast
  from softmax_entries[OF s(2) assms(4), of default_temperature] s(1) show ?thesis
    by (simp add: Attention_forward_def)
qed

lemma Decoder_total:
  assumes wf: "wf_Decoder bid d"
    and inp: "length input = B" "\<forall>i \<in> set input. 0 \<le> i \<and> i < int (dec_output_dim d)"
    and h: "shape3 hidden 1 B (dec_dec_hid_dim d)"
    and enc: "shape3 enc L B (directions bid * dec_enc_hid_dim d)" and L: "0 < L"
  shows "\<exists>scores hidden'. DecoderWithAttention_forward d keep input hidden enc = Inr (scores, hidden') \<and>
           shape2 scores B (dec_output_dim d) \<and> shape3 hidden' 1 B (dec_dec_hid_dim d)"
proof -
  let ?E = "directions bid * dec_enc_hid_dim d"
  from wf have tab: "shape2 (dec_embedding d) (dec_output_dim d) (dec_emb_dim d)"
    and att: "wf_Attention bid (dec_attention d)"
    and ae: "att_enc_hid_dim (dec_attention d) = dec_enc_hid_dim d"
    and ad: "att_dec_hid_dim (dec_attention d) = dec_dec_hid_dim d"
    and out: "wf_Linear (dec_out d)"
    and oi: "in_features (dec_out d) = dec_emb_dim d + ?E + dec_dec_hid_dim d"
    and oo: "out_features (dec_out d) = dec_output_dim d"
    and gru: "gru_contract bid d"
    by (simp_all add: wf_Decoder_def)
  from inp have "shape2 [input] 1 B" "valid_tokens [input] (dec_output_dim d)"
    by (simp_all add: shape2_def valid_tokens_def)
  from Embedding_total[OF tab this] obtain emb where
    emb: "Embedding_forward (dec_embedding d) [input] = Inr emb" "shape3 emb 1 B (dec_emb_dim d)"
    by blast
  define embedded where "embedded = Dropout_forward (dec_dropout d) keep emb"
  have embedded: "shape3 embedded 1 B (dec_emb_dim d)"
    unfolding embedded_def by (rule Dropout_shape[OF emb(2)])
  from Attention_total[OF att, of hidden B enc L] h enc L ae ad obtain a_t where
    a_t: "Attention_forward (dec_attention d) hidden enc = Inr a_t" "shape3 a_t L B 1"
    by auto
  from mul_bcast_total[OF a_t(2) enc] obtain weighted where
    w: "mul_bcast a_t enc = Inr weighted" "shape3 weighted L B ?E" by blast
  from sum_dim0_nth[OF w(2) L] have w_t: "shape3 [sum_dim0 weighted] 1 B ?E"
    by (simp add: shape3_def)
  from cat_dim2_total[OF embedded w_t] obtain rnn_input where
    ri: "cat_dim2 embedded [sum_dim0 weighted] = Inr rnn_input"
        "shape3 rnn_input 1 B (dec_emb_dim d + ?E)" by blast
  from gru ri(2) h obtain outp hidden' where
    g: "dec_rnn d rnn_input hidden = Inr (outp, hidden')"
       "shape3 outp 1 B (dec_dec_hid_dim d)" "shape3 hidden' 1 B (dec_dec_hid_dim d)"
    unfolding gru_contract_def by blast
  from cat_dim2_total[OF ri(2) g(2)] obtain features where
    f: "cat_dim2 rnn_input outp = Inr features"
       "shape3 features 1 B (dec_emb_dim d + ?E + dec_dec_hid_dim d)" by blast
  from Linear_forward_total[OF out, of features 1 B] f(2) oi oo obtain prediction where
    p: "Linear_forward (dec_out d) features = Inr prediction"
       "shape3 prediction 1 B (dec_output_dim d)" by auto
  from p(2) obtain scores where sc: "prediction = [scores]" "shape2 scores B (dec_output_dim d)"
    by (cases prediction) (auto simp: shape3_def)
  from emb(1) a_t(1) w(1) ri(1) g(1) f(1) p(1) sc(1)
  have "DecoderWithAttention_forward d keep input hidden enc = Inr (scores, hidden')"
    by (simp add: DecoderWithAttention_forward_def embedded_def Let_def)
  with sc(2) g(3) show ?thesis by blast
qed

lemma argmax_less: "r \<noteq> [] \<Longrightarrow> argmax r < length r"
  by (induction r rule: argmax.induct) (auto simp: Let_def)

lemma argmax_last_total:
  assumes "shape2 scores B V" "0 < V"
  shows "\<exists>top1. argmax_last scores = Inr top1 \<and> length top1 = B \<and>
           (\<forall>i \<in> set top1. 0 \<le> i \<and> i < int V)"
proof -
  from assms have ne: "\<not> (\<exists>r \<in> set scores. r = [])" by (auto simp: shape2_def)
  have "\<forall>i \<in> set (map (\<lambda>r. int (argmax r)) scores). 0 \<le> i \<and> i < int V"
    using assms argmax_less by (fastforce simp: shape2_def)
  with ne assms(1) show ?thesis by (simp add: argmax_last_def shape2_def)
qed

lemma length_expand: "length (expand n xs) = n"
  by (simp add: expand_def)

lemma store_scores_shape:
  assumes "store_scores B V outputs t scores = Inr outputs'" "shape3 outputs T B V"
  shows "shape3 outputs' T B V"
proof -
  from assms(1) have o: "outputs' = outputs[t := expand B (map (expand V) scores)]"
    and rows: "length scores = B \<or> length scores = 1"
    by (auto simp: store_scores_def split: if_splits)
  have "shape2 (expand B (map (expand V) scores)) B V"
  proof (cases "length scores = B")
    case True
    then show ?thesis by (auto simp: expand_def shape2_def length_expand)
  next
    case False
    with rows obtain r where "scores = [r]" by (cases scores) auto
    with False show ?thesis by (auto simp: expand_def shape2_def)
  qed
  with assms(2) show ?thesis
    unfolding o by (auto simp: shape3_def dest!: set_update_subset_insert[THEN subsetD])
qed

lemma store_scores_total:
  assumes "shape3 outputs T B V" "t < T" "shape2 scores B V"
  shows "\<exists>outputs'. store_scores B V outputs t scores = Inr outputs'"
  using assms by (auto simp: store_scores_def shape3_def shape2_def)

lemma trg_batch_size_shape: "shape2 trg T B \<Longrightarrow> 0 < T \<Longrightarrow> trg_batch_size trg = B"
  by (cases trg) (auto simp: shape2_def trg_batch_size_def)

lemma decode_step_shape:
  assumes "decode_step m masks draws enc trg tfr t st = Inr st'"
    and "shape3 (st_outputs st) T (trg_batch_size trg) (dec_output_dim (s2s_decoder m))"
  shows "shape3 (st_outputs st') T (trg_batch_size trg) (dec_output_dim (s2s_decoder m))"
proof -
  from assms(1) obtain scores outputs' where
    "store_scores (trg_batch_size trg) (dec_output_dim (s2s_decoder m)) (st_outputs st) t scores
       = Inr outputs'" "st_outputs st' = outputs'"
    by (auto simp: decode_step_def Let_def split: sum.splits)
  with store_scores_shape[OF _ assms(2)] show ?thesis by simp
qed

lemma decode_loop_shape:
  assumes "decode_loop m masks draws enc trg tfr ts st = Inr st'"
    and "shape3 (st_outputs st) T (trg_batch_size trg) (dec_output_dim (s2s_decoder m))"
  shows "shape3 (st_outputs st') T (trg_batch_size trg) (dec_output_dim (s2s_decoder m))"
  using assms
proof (induction ts arbitrary: st)
  case Nil
  then show ?case by simp
next
  case (Cons t ts)
  then obtain st1 where s: "decode_step m masks draws enc trg tfr t st = Inr st1"
    and l: "decode_loop m masks draws enc trg tfr ts st1 = Inr st'"
    by (auto split: sum.splits)
  from Cons.IH[OF l decode_step_shape[OF s Cons.prems(2)]] show ?case .
qed

lemma zeros3_shape: "shape3 (zeros3 a b c) a b c"
  by (simp add: zeros3_def zeros2_def shape3_def shape2_def)

lemma decode_step_total:
  assumes wf: "wf_Seq2Seq m"
    and enc: "shape3 enc S B (directions (enc_bidirectional (s2s_encoder m)) * enc_hid_dim (s2s_encoder m))"
    and S: "0 < S"
    and trg: "shape2 trg T B" "valid_tokens trg (dec_output_dim (s2s_decoder m))"
    and t: "t < T"
    and inv: "loop_inv m T B st"
  shows "\<exists>st'. decode_step m masks draws enc trg tfr t st = Inr st' \<and> loop_inv m T B st'"
proof -
  let ?d = "s2s_decoder m" and ?V = "dec_output_dim (s2s_decoder m)"
  from wf have wd: "wf_Decoder (enc_bidirectional (s2s_encoder m)) ?d"
    and eh: "dec_enc_hid_dim ?d = enc_hid_dim (s2s_encoder m)"
    by (simp_all add: wf_Seq2Seq_def)
  from wd have V: "0 < ?V" by (simp add: wf_Decoder_def)
  from t trg(1) have bs: "trg_batch_size trg = B" by (intro trg_batch_size_shape) auto
  from inv have i1: "length (st_input st) = B"
    and i2: "\<forall>i \<in> set (st_input st). 0 \<le> i \<and> i < int ?V"
    and i3: "shape3 (st_hidden st) 1 B (dec_dec_hid_dim ?d)"
    and i4: "shape3 (st_outputs st) T B ?V"
    by (simp_all add: loop_inv_def)
  from enc eh have enc': "shape3 enc S B (directions (enc_bidirectional (s2s_encoder m)) * dec_enc_hid_dim ?d)"
    by simp
  from Decoder_total[OF wd i1 i2 i3 enc' S, of "masks t"] obtain scores hidden' where
    d: "DecoderWithAttention_forward ?d (masks t) (st_input st) (st_hidden st) enc = Inr (scores, hidden')"
    and ds: "shape2 scores B ?V" and dh: "shape3 hidden' 1 B (dec_dec_hid_dim ?d)"
    by blast
  from store_scores_total[OF i4 t ds] obtain outputs' where
    st: "store_scores B ?V (st_outputs st) t scores = Inr outputs'" by blast
  from store_scores_shape[OF st i4] have os: "shape3 outputs' T B ?V" .
  from argmax_last_total[OF ds V] obtain top1 where
    a: "argmax_last scores = Inr top1" "length top1 = B" "\<forall>i \<in> set top1. 0 \<le> i \<and> i < int ?V"
    by blast
  from trg t have row: "length (trg ! t) = B" "\<forall>i \<in> set (trg ! t). 0 \<le> i \<and> i < int ?V"
    by (auto simp: shape2_def valid_tokens_def)
  define st' where "st' = \<lparr>st_input = (if draws (st_rng st) < tfr then trg ! t else top1),
               st_hidden = hidden', st_outputs = outputs', st_rng = Suc (st_rng st)\<rparr>"
  from d st a(1) bs have "decode_step m masks draws enc trg tfr t st = Inr st'"
    by (simp add: decode_step_def st'_def Let_def)
  moreover from a row dh os have "loop_inv m T B st'"
    by (simp add: loop_inv_def st'_def)
  ultimately show ?thesis by blast
qed

lemma decode_loop_total:
  assumes wf: "wf_Seq2Seq m"
    and enc: "shape3 enc S B (directions (enc_bidirectional (s2s_encoder m)) * enc_hid_dim (s2s_encoder m))"
    and S: "0 < S"
    and trg: "shape2 trg T B" "valid_tokens trg (dec_output_dim (s2s_decoder m))"
    and ts: "\<forall>t \<in> set ts. t < T"
    and inv: "loop_inv m T B st"
  shows "\<exists>st'. decode_loop m masks draws enc trg tfr ts st = Inr st' \<and> loop_inv m T B st'"
  using ts inv
proof (induction ts arbitrary: st)
  case Nil
  then show ?case by simp
next
  case (Cons t ts)
  from Cons.prems have t: "t < T" by simp
  from decode_step_total[OF wf enc S trg t Cons.prems(2), of masks draws tfr] obtain st1 where
    s: "decode_step m masks draws enc trg tfr t st = Inr st1" and i: "loop_inv m T B st1"
    by blast
  from Cons.prems(1) have "\<forall>t \<in> set ts. t < T" by simp
  from Cons.IH[OF this i] s show ?case by simp
qed

lemma demo_lstm_contract: "lstm_contract demo_encoder"
proof -
  have "\<exists>outputs hidden cell. demo_lstm x = Inr (outputs, hidden, cell) \<and>
          shape3 outputs S B 1 \<and> shape3 hidden 1 B 1 \<and> shape3 cell 1 B 1"
    if "0 < S" "shape3 x S B 1" for x S B
  proof -
    from that have ne: "x \<noteq> []" by (auto simp: shape3_def)
    then have "last x \<in> set x" by simp
    with that(2) have "shape3 [last x] 1 B 1" by (simp add: shape3_def)
    with ne that(2) show ?thesis by (simp add: demo_lstm_def)
  qed
  then show ?thesis
    by (simp add: lstm_contract_def demo_encoder_def directions_def)
qed

lemma demo_model_wf: "wf_Seq2Seq demo_model"
proof -
  have e: "wf_Encoder demo_encoder"
    using demo_lstm_contract by (simp add: wf_Encoder_def demo_encoder_def shape2_def)
  have g: "gru_contract False demo_decoder"
    by (simp add: gru_contract_def demo_decoder_def demo_gru_def)
  have a: "wf_Attention False (dec_attention demo_decoder)"
    using demo_attention_wf by (simp add: demo_decoder_def)
  have d: "wf_Decoder False demo_decoder"
    unfolding wf_Decoder_def using g a
    by (simp add: demo_decoder_def demo_attention_def wf_Linear_def shape2_def directions_def)
  have b: "enc_bidirectional demo_encoder = False" "enc_hid_dim demo_encoder = 1"
    "dec_enc_hid_dim demo_decoder = 1" "dec_dec_hid_dim demo_decoder = 1"
    by (simp_all add: demo_encoder_def demo_decoder_def)
  from e d b show ?thesis by (simp add: wf_Seq2Seq_def)
qed

section \<open>The shape of the result\<close>

text \<open>
  Claim C1. Whenever \<open>forward\<close> returns, the tensor it returns has the shape
  \<open>[trg_len, batch, output_dim]\<close>, with \<open>trg_len\<close> and \<open>batch\<close> the two sizes of the
  target. And it does return, for every ratio, all draws and all masks, when the sizes of
  the model fit, source and target are non-empty sequences \<open>[S, B]\<close> and \<open>[T, B]\<close> of
  the same batch size, and their tokens lie in the vocabularies.
\<close>

theorem forward_output_shape:
  "(\<forall>out k'. Seq2Seq_forward m masks draws k src trg tfr = Inr (out, k') \<longrightarrow>
      shape3 out (length trg) (trg_batch_size trg) (dec_output_dim (s2s_decoder m))) \<and>
   (wf_Seq2Seq m \<and> shape2 src S B \<and> 0 < S \<and> valid_tokens src (enc_input_dim (s2s_encoder m)) \<and>
    shape2 trg T B \<and> 0 < T \<and> valid_tokens trg (dec_output_dim (s2s_decoder m)) \<longrightarrow>
      (\<exists>out k'. Seq2Seq_forward m masks draws k src trg tfr = Inr (out, k') \<and>
                 shape3 out T B (dec_output_dim (s2s_decoder m))))"
proof (intro conjI allI impI)
  fix out k'
  assume "Seq2Seq_forward m masks draws k src trg tfr = Inr (out, k')"
  then obtain enc st st0 where
    s: "Seq2Seq_start m masks k src trg = Inr (enc, st0)"
    and l: "decode_loop m masks draws enc trg tfr [1..<length trg] st0 = Inr st"
    and o: "out = st_outputs st"
    by (auto simp: Seq2Seq_forward_def Seq2Seq_run_def split: sum.splits)
  from Seq2Seq_start_state[OF s] zeros3_shape
  have "shape3 (st_outputs st0) (length trg) (trg_batch_size trg) (dec_output_dim (s2s_decoder m))"
    by simp
  from decode_loop_shape[OF l this] o
  show "shape3 out (length trg) (trg_batch_size trg) (dec_output_dim (s2s_decoder m))" by simp
next
  let ?e = "s2s_encoder m" and ?d = "s2s_decoder m"
  assume a: "wf_Seq2Seq m \<and> shape2 src S B \<and> 0 < S \<and> valid_tokens src (enc_input_dim ?e) \<and>
    shape2 trg T B \<and> 0 < T \<and> valid_tokens trg (dec_output_dim ?d)"
  then have wf: "wf_Seq2Seq m" and src: "shape2 src S B" "valid_tokens src (enc_input_dim ?e)"
    and S: "0 < S" and trg: "shape2 trg T B" "valid_tokens trg (dec_output_dim ?d)" and T: "0 < T"
    by simp_all
  from wf have we: "wf_Encoder ?e" and dh: "dec_dec_hid_dim ?d = enc_hid_dim ?e"
    by (simp_all add: wf_Seq2Seq_def)
  from Encoder_total[OF we src(1) S src(2), of "masks 0"] obtain enc hidden cell where
    e: "Encoder_forward ?e (masks 0) src = Inr (enc, hidden, cell)"
    and es: "shape3 enc S B (directions (enc_bidirectional ?e) * enc_hid_dim ?e)"
    and hs: "shape3 hidden (enc_n_layers ?e * directions (enc_bidirectional ?e)) B (enc_hid_dim ?e)"
    by blast
  from we have "0 < enc_n_layers ?e * directions (enc_bidirectional ?e)"
    by (simp add: wf_Encoder_def directions_def)
  with hs have hne: "hidden \<noteq> []" by (auto simp: shape3_def)
  then have "last hidden \<in> set hidden" by simp
  with hs have hl: "shape2 (last hidden) B (enc_hid_dim ?e)" by (simp add: shape3_def)
  from trg T have tne: "trg \<noteq> []" and len: "length trg = T" by (auto simp: shape2_def)
  from trg T have bs: "trg_batch_size trg = B" by (intro trg_batch_size_shape)
  define st0 where "st0 = \<lparr>st_input = hd trg, st_hidden = [last hidden],
      st_outputs = zeros3 T B (dec_output_dim ?d), st_rng = k\<rparr>"
  from e hne tne bs len have s: "Seq2Seq_start m masks k src trg = Inr (enc, st0)"
    by (simp add: Seq2Seq_start_def st0_def Let_def)
  from trg tne have "length (hd trg) = B" "\<forall>i \<in> set (hd trg). 0 \<le> i \<and> i < int (dec_output_dim ?d)"
    by (auto simp: shape2_def valid_tokens_def)
  with hl dh zeros3_shape have inv: "loop_inv m T B st0"
    by (simp add: loop_inv_def st0_def shape3_def)
  have "\<forall>t \<in> set [1..<T]. t < T" by simp
  from decode_loop_total[OF wf es S trg this inv, of masks draws tfr] obtain st where
    l: "decode_loop m masks draws enc trg tfr [1..<T] st0 = Inr st" and i: "loop_inv m T B st"
    by blast
  from s l len have "Seq2Seq_forward m masks draws k src trg tfr = Inr (st_outputs st, st_rng st)"
    by (simp add: Seq2Seq_forward_def Seq2Seq_run_def)
  with i show "\<exists>out k'. Seq2Seq_forward m masks draws k src trg tfr = Inr (out, k') \<and>
                 shape3 out T B (dec_output_dim ?d)"
    by (simp add: loop_inv_def)
qed

theorem forward_output_shape_witness:
  "\<exists>out k'. Seq2Seq_forward demo_model demo_masks demo_draws 0
       (replicate 7 [0, 1, 0]) (replicate 5 [0, 1, 1]) (1 / 2) = Inr (out, k') \<and>
     shape3 out 5 3 2"
proof -
  have s: "shape2 (replicate 7 [0, 1, 0 :: int]) 7 3" "shape2 (replicate 5 [0, 1, 1 :: int]) 5 3"
    by (simp_all add: shape2_def)
  have v: "valid_tokens (replicate 7 [0, 1, 0]) (enc_input_dim (s2s_encoder demo_model))"
    "valid_tokens (replicate 5 [0, 1, 1]) (dec_output_dim (s2s_decoder demo_model))"
    by (simp_all add: valid_tokens_def demo_encoder_def)
  from forward_output_shape[of demo_model demo_masks demo_draws 0 "replicate 7 [0, 1, 0]"
      "replicate 5 [0, 1, 1]" "1 / 2" 7 3 5] demo_model_wf s v
  show ?thesis by simp
qed

end
